theory Spec2Isabelle
  imports Main "HOL-Library.Word"
begin

unbundle bit_operations_syntax

section \<open>The value representation of quickjs.h\<close>

text \<open>
  The header \<^verbatim>\<open>quickjs.h\<close> encodes every runtime value as a fixed-size handle
  \<^verbatim>\<open>JSValue\<close>, in one of three layouts chosen by the preprocessor: the struct
  layout (the default on 64-bit targets), the NaN-boxed layout
  (\<^verbatim>\<open>JS_NAN_BOXING\<close>) and the compile-time checking layout
  (\<^verbatim>\<open>JS_CHECK_JSVALUE\<close>). Each macro and inline function of the header is
  embedded once per layout; the suffixes \<open>_nb\<close>, \<open>_st\<close> and \<open>_ck\<close> name the
  layout, and the prefix \<open>uu_\<close> stands for the two leading underscores of
  \<^verbatim>\<open>__JS_NewFloat64\<close> and \<^verbatim>\<open>__JS_NewShortBigInt\<close>.

  Machine integers are words: \<^verbatim>\<open>int\<close>, \<^verbatim>\<open>int32_t\<close>, \<^verbatim>\<open>unsigned\<close> and
  \<^verbatim>\<open>uint32_t\<close> are \<^typ>\<open>32 word\<close>, \<^verbatim>\<open>int64_t\<close> and \<^verbatim>\<open>uint64_t\<close> are
  \<^typ>\<open>64 word\<close>. A conversion from a signed type to a wider type is \<^const>\<open>scast\<close>
  (sign extension), from an unsigned type \<^const>\<open>ucast\<close> (zero extension), and a
  conversion to a narrower type is \<^const>\<open>ucast\<close> (truncation). The order \<open>\<le>\<close> on
  words is the unsigned one; a signed comparison is written with \<^const>\<open>sint\<close>.

  A \<^verbatim>\<open>double\<close> is its IEEE-754 bit pattern, a \<^typ>\<open>64 word\<close>: the header
  itself moves between \<^verbatim>\<open>double\<close> and \<^verbatim>\<open>uint64_t\<close> through a union, and
  the only thing it ever asks of a double is whether its bits denote a NaN. An
  assignment of a double keeps its bits in the model; a processor may quieten a
  signalling NaN on the way, so the properties below ask the struct layout to
  return the very bits only of doubles that are not NaNs. The unused
  \<^verbatim>\<open>ctx\<close> parameter of the constructors is left out.
\<close>

type_synonym double = "64 word"

subsection \<open>The tag enumeration\<close>

definition JS_TAG_FIRST :: "32 word" where "JS_TAG_FIRST = - 9"
definition JS_TAG_BIG_INT :: "32 word" where "JS_TAG_BIG_INT = - 9"
definition JS_TAG_SYMBOL :: "32 word" where "JS_TAG_SYMBOL = - 8"
definition JS_TAG_STRING :: "32 word" where "JS_TAG_STRING = - 7"
definition JS_TAG_MODULE :: "32 word" where "JS_TAG_MODULE = - 3"
definition JS_TAG_FUNCTION_BYTECODE :: "32 word" where "JS_TAG_FUNCTION_BYTECODE = - 2"
definition JS_TAG_OBJECT :: "32 word" where "JS_TAG_OBJECT = - 1"
definition JS_TAG_INT :: "32 word" where "JS_TAG_INT = 0"
definition JS_TAG_BOOL :: "32 word" where "JS_TAG_BOOL = 1"
definition JS_TAG_NULL :: "32 word" where "JS_TAG_NULL = 2"
definition JS_TAG_UNDEFINED :: "32 word" where "JS_TAG_UNDEFINED = 3"
definition JS_TAG_UNINITIALIZED :: "32 word" where "JS_TAG_UNINITIALIZED = 4"
definition JS_TAG_CATCH_OFFSET :: "32 word" where "JS_TAG_CATCH_OFFSET = 5"
definition JS_TAG_EXCEPTION :: "32 word" where "JS_TAG_EXCEPTION = 6"
definition JS_TAG_SHORT_BIG_INT :: "32 word" where "JS_TAG_SHORT_BIG_INT = 7"
definition JS_TAG_FLOAT64 :: "32 word" where "JS_TAG_FLOAT64 = 8"

text \<open>
  The tags with a reference count (the comment of the enumeration: ``all tags with
  a reference count are negative''), the inline tags other than float64, and the
  whole enumeration, in the order of the source.
\<close>

definition ref_count_tags :: "32 word list" where
  "ref_count_tags =
     [JS_TAG_BIG_INT, JS_TAG_SYMBOL, JS_TAG_STRING, JS_TAG_MODULE,
      JS_TAG_FUNCTION_BYTECODE, JS_TAG_OBJECT]"

definition inline_non_float_tags :: "32 word list" where
  "inline_non_float_tags =
     [JS_TAG_INT, JS_TAG_BOOL, JS_TAG_NULL, JS_TAG_UNDEFINED, JS_TAG_UNINITIALIZED,
      JS_TAG_CATCH_OFFSET, JS_TAG_EXCEPTION, JS_TAG_SHORT_BIG_INT]"

definition non_float_tags :: "32 word list" where
  "non_float_tags = ref_count_tags @ inline_non_float_tags"

definition enum_tags :: "32 word list" where
  "enum_tags = non_float_tags @ [JS_TAG_FLOAT64]"

definition inline_tags :: "32 word list" where
  "inline_tags = inline_non_float_tags @ [JS_TAG_FLOAT64]"

text \<open>
  The test that the struct layout and the NaN-boxed layout of
  \<^verbatim>\<open>__JS_NewFloat64\<close> and \<^verbatim>\<open>JS_VALUE_IS_NAN\<close> both write out:
  \<^verbatim>\<open>(u.u64 & 0x7fffffffffffffff) > 0x7ff0000000000000\<close>.
\<close>

definition is_nan_bits :: "double \<Rightarrow> bool" where
  "is_nan_bits d \<longleftrightarrow> (d AND 0x7fffffffffffffff) > 0x7ff0000000000000"

subsection \<open>The NaN-boxed layout\<close>

text \<open>\<^verbatim>\<open>typedef uint64_t JSValue;\<close>\<close>

type_synonym JSValue_nb = "64 word"

definition JS_VALUE_GET_TAG_nb :: "JSValue_nb \<Rightarrow> 32 word" where
  "JS_VALUE_GET_TAG_nb v = ucast (drop_bit 32 v)"

definition JS_VALUE_GET_INT_nb :: "JSValue_nb \<Rightarrow> 32 word" where
  "JS_VALUE_GET_INT_nb v = ucast v"

definition JS_VALUE_GET_BOOL_nb :: "JSValue_nb \<Rightarrow> 32 word" where
  "JS_VALUE_GET_BOOL_nb v = ucast v"

definition JS_VALUE_GET_SHORT_BIG_INT_nb :: "JSValue_nb \<Rightarrow> 32 word" where
  "JS_VALUE_GET_SHORT_BIG_INT_nb v = ucast v"

text \<open>
  \<^verbatim>\<open>(((uint64_t)(tag) << 32) | (uint32_t)(val))\<close>: the tag is an \<^verbatim>\<open>int\<close>,
  sign-extended to 64 bits before the shift; the payload is zero-extended.
\<close>

definition JS_MKVAL_nb :: "32 word \<Rightarrow> 32 word \<Rightarrow> JSValue_nb" where
  "JS_MKVAL_nb tag val = push_bit 32 (scast tag) OR ucast val"

text \<open>
  \<^verbatim>\<open>(((uint64_t)(tag) << 32) | (uintptr_t)(ptr))\<close>. The header selects this
  layout where \<^verbatim>\<open>INTPTR_MAX < INT64_MAX\<close>, so a pointer is 32 bits wide.
\<close>

definition JS_MKPTR_nb :: "32 word \<Rightarrow> 32 word \<Rightarrow> JSValue_nb" where
  "JS_MKPTR_nb tag ptr = push_bit 32 (scast tag) OR ucast ptr"

definition JS_FLOAT64_TAG_ADDEND :: "32 word" where
  "JS_FLOAT64_TAG_ADDEND = 0x7ff80000 - JS_TAG_FIRST + 1"

definition JS_VALUE_GET_FLOAT64_nb :: "JSValue_nb \<Rightarrow> double" where
  "JS_VALUE_GET_FLOAT64_nb v = v + push_bit 32 (scast JS_FLOAT64_TAG_ADDEND)"

definition JS_NAN_nb :: JSValue_nb where
  "JS_NAN_nb = 0x7ff8000000000000 - push_bit 32 (scast JS_FLOAT64_TAG_ADDEND)"

definition uu_JS_NewFloat64_nb :: "double \<Rightarrow> JSValue_nb" where
  "uu_JS_NewFloat64_nb d =
     (if (d AND 0x7fffffffffffffff) > 0x7ff0000000000000 then JS_NAN_nb
      else d - push_bit 32 (scast JS_FLOAT64_TAG_ADDEND))"

definition uu_JS_NewShortBigInt_nb :: "32 word \<Rightarrow> JSValue_nb" where
  "uu_JS_NewShortBigInt_nb d = JS_MKVAL_nb JS_TAG_SHORT_BIG_INT d"

text \<open>
  \<^verbatim>\<open>((unsigned)((tag) - JS_TAG_FIRST) >= (JS_TAG_FLOAT64 - JS_TAG_FIRST))\<close>,
  an unsigned comparison on 32 bits. \<^verbatim>\<open>JS_VALUE_GET_NORM_TAG\<close> passes the tag
  as a \<^verbatim>\<open>uint32_t\<close>, \<^verbatim>\<open>JS_IsNumber\<close> as an \<^verbatim>\<open>int\<close>; the subtraction wraps
  around in the model, as it does on two's complement hardware.
\<close>

definition JS_TAG_IS_FLOAT64_nb :: "32 word \<Rightarrow> bool" where
  "JS_TAG_IS_FLOAT64_nb tag \<longleftrightarrow> tag - JS_TAG_FIRST \<ge> JS_TAG_FLOAT64 - JS_TAG_FIRST"

definition JS_VALUE_GET_NORM_TAG_nb :: "JSValue_nb \<Rightarrow> 32 word" where
  "JS_VALUE_GET_NORM_TAG_nb v =
     (let tag = JS_VALUE_GET_TAG_nb v
      in if JS_TAG_IS_FLOAT64_nb tag then JS_TAG_FLOAT64 else tag)"

text \<open>
  \<^verbatim>\<open>tag == (JS_NAN >> 32)\<close>: the \<^verbatim>\<open>uint32_t\<close> tag is zero-extended and compared
  with a 64-bit constant.
\<close>

definition JS_VALUE_IS_NAN_nb :: "JSValue_nb \<Rightarrow> bool" where
  "JS_VALUE_IS_NAN_nb v \<longleftrightarrow>
     (let tag = JS_VALUE_GET_TAG_nb v
      in (ucast tag :: 64 word) = drop_bit 32 JS_NAN_nb)"

definition JS_VALUE_IS_BOTH_INT_nb :: "JSValue_nb \<Rightarrow> JSValue_nb \<Rightarrow> bool" where
  "JS_VALUE_IS_BOTH_INT_nb v1 v2 \<longleftrightarrow>
     (JS_VALUE_GET_TAG_nb v1 OR JS_VALUE_GET_TAG_nb v2) = 0"

definition JS_VALUE_IS_BOTH_FLOAT_nb :: "JSValue_nb \<Rightarrow> JSValue_nb \<Rightarrow> bool" where
  "JS_VALUE_IS_BOTH_FLOAT_nb v1 v2 \<longleftrightarrow>
     JS_TAG_IS_FLOAT64_nb (JS_VALUE_GET_TAG_nb v1) \<and>
     JS_TAG_IS_FLOAT64_nb (JS_VALUE_GET_TAG_nb v2)"

definition JS_VALUE_HAS_REF_COUNT_nb :: "JSValue_nb \<Rightarrow> bool" where
  "JS_VALUE_HAS_REF_COUNT_nb v \<longleftrightarrow> JS_VALUE_GET_TAG_nb v \<ge> JS_TAG_FIRST"

definition JS_NULL_nb :: JSValue_nb where "JS_NULL_nb = JS_MKVAL_nb JS_TAG_NULL 0"
definition JS_UNDEFINED_nb :: JSValue_nb where "JS_UNDEFINED_nb = JS_MKVAL_nb JS_TAG_UNDEFINED 0"
definition JS_FALSE_nb :: JSValue_nb where "JS_FALSE_nb = JS_MKVAL_nb JS_TAG_BOOL 0"
definition JS_TRUE_nb :: JSValue_nb where "JS_TRUE_nb = JS_MKVAL_nb JS_TAG_BOOL 1"
definition JS_EXCEPTION_nb :: JSValue_nb where "JS_EXCEPTION_nb = JS_MKVAL_nb JS_TAG_EXCEPTION 0"
definition JS_UNINITIALIZED_nb :: JSValue_nb where
  "JS_UNINITIALIZED_nb = JS_MKVAL_nb JS_TAG_UNINITIALIZED 0"

text \<open>\<^verbatim>\<open>JS_MKVAL(JS_TAG_BOOL, (val != 0))\<close>\<close>

definition JS_NewBool_nb :: "bool \<Rightarrow> JSValue_nb" where
  "JS_NewBool_nb val = JS_MKVAL_nb JS_TAG_BOOL (if val then 1 else 0)"

definition JS_NewInt32_nb :: "32 word \<Rightarrow> JSValue_nb" where
  "JS_NewInt32_nb val = JS_MKVAL_nb JS_TAG_INT val"

definition JS_NewFloat64_nb :: "double \<Rightarrow> JSValue_nb" where
  "JS_NewFloat64_nb val = uu_JS_NewFloat64_nb val"

text \<open>
  \<^verbatim>\<open>JS_NewInt64\<close> and \<^verbatim>\<open>JS_NewUint32\<close> convert an integer to a double with a C
  cast. The conversion is the floating-point unit's; it is taken as a parameter
  (\<open>i64_to_double\<close>, \<open>u32_to_double\<close>), of which nothing is assumed.
  \<^verbatim>\<open>INT32_MIN\<close> and \<^verbatim>\<open>INT32_MAX\<close> are the constants of \<^verbatim>\<open><stdint.h>\<close>;
  \<^verbatim>\<open>JS_NewInt64\<close> compares them with a signed 64-bit value,
  \<^verbatim>\<open>JS_NewUint32\<close> with an unsigned 32-bit one.
\<close>

definition INT32_MIN :: int where "INT32_MIN = - (2 ^ 31)"
definition INT32_MAX :: int where "INT32_MAX = 2 ^ 31 - 1"

definition JS_NewInt64_nb :: "(64 word \<Rightarrow> double) \<Rightarrow> 64 word \<Rightarrow> JSValue_nb" where
  "JS_NewInt64_nb i64_to_double val =
     (if sint val \<ge> INT32_MIN \<and> sint val \<le> INT32_MAX
      then JS_NewInt32_nb (ucast val)
      else JS_NewFloat64_nb (i64_to_double val))"

definition JS_NewUint32_nb :: "(32 word \<Rightarrow> double) \<Rightarrow> 32 word \<Rightarrow> JSValue_nb" where
  "JS_NewUint32_nb u32_to_double val =
     (if uint val \<le> INT32_MAX
      then JS_NewInt32_nb val
      else JS_NewFloat64_nb (u32_to_double val))"

definition JS_IsNumber_nb :: "JSValue_nb \<Rightarrow> bool" where
  "JS_IsNumber_nb v \<longleftrightarrow>
     (let tag = JS_VALUE_GET_TAG_nb v in tag = JS_TAG_INT \<or> JS_TAG_IS_FLOAT64_nb tag)"

definition JS_IsBigInt_nb :: "JSValue_nb \<Rightarrow> bool" where
  "JS_IsBigInt_nb v \<longleftrightarrow>
     (let tag = JS_VALUE_GET_TAG_nb v
      in tag = JS_TAG_BIG_INT \<or> tag = JS_TAG_SHORT_BIG_INT)"

definition JS_IsBool_nb :: "JSValue_nb \<Rightarrow> bool" where
  "JS_IsBool_nb v \<longleftrightarrow> JS_VALUE_GET_TAG_nb v = JS_TAG_BOOL"

definition JS_IsNull_nb :: "JSValue_nb \<Rightarrow> bool" where
  "JS_IsNull_nb v \<longleftrightarrow> JS_VALUE_GET_TAG_nb v = JS_TAG_NULL"

definition JS_IsUndefined_nb :: "JSValue_nb \<Rightarrow> bool" where
  "JS_IsUndefined_nb v \<longleftrightarrow> JS_VALUE_GET_TAG_nb v = JS_TAG_UNDEFINED"

definition JS_IsException_nb :: "JSValue_nb \<Rightarrow> bool" where
  "JS_IsException_nb v \<longleftrightarrow> JS_VALUE_GET_TAG_nb v = JS_TAG_EXCEPTION"

definition JS_IsUninitialized_nb :: "JSValue_nb \<Rightarrow> bool" where
  "JS_IsUninitialized_nb v \<longleftrightarrow> JS_VALUE_GET_TAG_nb v = JS_TAG_UNINITIALIZED"

subsection \<open>The struct layout\<close>

text \<open>
  \<^verbatim>\<open>union JSValueUnion { int32_t int32; double float64; void *ptr; int32_t short_big_int; }\<close>.
  The union is modelled by the member that was last written. Reading a member
  returns the stored value when the member read has the type of the member
  written (\<^verbatim>\<open>int32\<close> and \<^verbatim>\<open>short_big_int\<close> are both \<^verbatim>\<open>int32_t\<close> at offset 0);
  reading the bytes of a member of another type depends on the memory layout of
  the target, and is \<open>None\<close> here.
\<close>

datatype JSValueUnion =
    U_int32 "32 word"
  | U_float64 double
  | U_ptr "64 word"
  | U_short_big_int "32 word"

fun union_int32 :: "JSValueUnion \<Rightarrow> 32 word option" where
  "union_int32 (U_int32 x) = Some x"
| "union_int32 (U_short_big_int x) = Some x"
| "union_int32 _ = None"

fun union_short_big_int :: "JSValueUnion \<Rightarrow> 32 word option" where
  "union_short_big_int (U_short_big_int x) = Some x"
| "union_short_big_int (U_int32 x) = Some x"
| "union_short_big_int _ = None"

fun union_float64 :: "JSValueUnion \<Rightarrow> double option" where
  "union_float64 (U_float64 d) = Some d"
| "union_float64 _ = None"

text \<open>\<^verbatim>\<open>struct JSValue { JSValueUnion u; int64_t tag; }\<close>\<close>

record JSValue_st =
  js_u :: JSValueUnion
  js_tag :: "64 word"

definition JS_VALUE_GET_TAG_st :: "JSValue_st \<Rightarrow> 32 word" where
  "JS_VALUE_GET_TAG_st v = ucast (js_tag v)"

definition JS_VALUE_GET_NORM_TAG_st :: "JSValue_st \<Rightarrow> 32 word" where
  "JS_VALUE_GET_NORM_TAG_st v = JS_VALUE_GET_TAG_st v"

definition JS_VALUE_GET_INT_st :: "JSValue_st \<Rightarrow> 32 word option" where
  "JS_VALUE_GET_INT_st v = union_int32 (js_u v)"

definition JS_VALUE_GET_BOOL_st :: "JSValue_st \<Rightarrow> 32 word option" where
  "JS_VALUE_GET_BOOL_st v = union_int32 (js_u v)"

definition JS_VALUE_GET_FLOAT64_st :: "JSValue_st \<Rightarrow> double option" where
  "JS_VALUE_GET_FLOAT64_st v = union_float64 (js_u v)"

definition JS_VALUE_GET_SHORT_BIG_INT_st :: "JSValue_st \<Rightarrow> 32 word option" where
  "JS_VALUE_GET_SHORT_BIG_INT_st v = union_short_big_int (js_u v)"

text \<open>
  \<^verbatim>\<open>(JSValue){ (JSValueUnion){ .int32 = val }, tag }\<close>: the \<^verbatim>\<open>int\<close> tag is
  sign-extended into the \<^verbatim>\<open>int64_t\<close> field.
\<close>

definition JS_MKVAL_st :: "32 word \<Rightarrow> 32 word \<Rightarrow> JSValue_st" where
  "JS_MKVAL_st tag val = \<lparr>js_u = U_int32 val, js_tag = scast tag\<rparr>"

text \<open>\<^verbatim>\<open>(JSValue){ (JSValueUnion){ .ptr = p }, tag }\<close>\<close>

definition JS_MKPTR_st :: "32 word \<Rightarrow> 64 word \<Rightarrow> JSValue_st" where
  "JS_MKPTR_st tag p = \<lparr>js_u = U_ptr p, js_tag = scast tag\<rparr>"

text \<open>\<^verbatim>\<open>((unsigned)(tag) == JS_TAG_FLOAT64)\<close>\<close>

definition JS_TAG_IS_FLOAT64_st :: "32 word \<Rightarrow> bool" where
  "JS_TAG_IS_FLOAT64_st tag \<longleftrightarrow> tag = JS_TAG_FLOAT64"

definition uu_JS_NewFloat64_st :: "double \<Rightarrow> JSValue_st" where
  "uu_JS_NewFloat64_st d = \<lparr>js_u = U_float64 d, js_tag = scast JS_TAG_FLOAT64\<rparr>"

text \<open>
  In this layout \<^verbatim>\<open>__JS_NewShortBigInt\<close> takes an \<^verbatim>\<open>int64_t\<close> and stores it
  in the \<^verbatim>\<open>int32_t\<close> member, which truncates.
\<close>

definition uu_JS_NewShortBigInt_st :: "64 word \<Rightarrow> JSValue_st" where
  "uu_JS_NewShortBigInt_st d =
     \<lparr>js_u = U_short_big_int (ucast d), js_tag = scast JS_TAG_SHORT_BIG_INT\<rparr>"

text \<open>
  \<^verbatim>\<open>if (v.tag != JS_TAG_FLOAT64) return 0;\<close> compares the 64-bit field with the
  sign-extended constant; the second return reads \<^verbatim>\<open>v.u.float64\<close>.
\<close>

definition JS_VALUE_IS_NAN_st :: "JSValue_st \<Rightarrow> bool option" where
  "JS_VALUE_IS_NAN_st v =
     (if js_tag v \<noteq> scast JS_TAG_FLOAT64 then Some False
      else case union_float64 (js_u v) of
             None \<Rightarrow> None
           | Some d \<Rightarrow> Some ((d AND 0x7fffffffffffffff) > 0x7ff0000000000000))"

definition JS_VALUE_IS_BOTH_INT_st :: "JSValue_st \<Rightarrow> JSValue_st \<Rightarrow> bool" where
  "JS_VALUE_IS_BOTH_INT_st v1 v2 \<longleftrightarrow>
     (JS_VALUE_GET_TAG_st v1 OR JS_VALUE_GET_TAG_st v2) = 0"

definition JS_VALUE_IS_BOTH_FLOAT_st :: "JSValue_st \<Rightarrow> JSValue_st \<Rightarrow> bool" where
  "JS_VALUE_IS_BOTH_FLOAT_st v1 v2 \<longleftrightarrow>
     JS_TAG_IS_FLOAT64_st (JS_VALUE_GET_TAG_st v1) \<and>
     JS_TAG_IS_FLOAT64_st (JS_VALUE_GET_TAG_st v2)"

definition JS_VALUE_HAS_REF_COUNT_st :: "JSValue_st \<Rightarrow> bool" where
  "JS_VALUE_HAS_REF_COUNT_st v \<longleftrightarrow> JS_VALUE_GET_TAG_st v \<ge> JS_TAG_FIRST"

definition JS_NULL_st :: JSValue_st where "JS_NULL_st = JS_MKVAL_st JS_TAG_NULL 0"
definition JS_UNDEFINED_st :: JSValue_st where "JS_UNDEFINED_st = JS_MKVAL_st JS_TAG_UNDEFINED 0"
definition JS_FALSE_st :: JSValue_st where "JS_FALSE_st = JS_MKVAL_st JS_TAG_BOOL 0"
definition JS_TRUE_st :: JSValue_st where "JS_TRUE_st = JS_MKVAL_st JS_TAG_BOOL 1"
definition JS_EXCEPTION_st :: JSValue_st where "JS_EXCEPTION_st = JS_MKVAL_st JS_TAG_EXCEPTION 0"
definition JS_UNINITIALIZED_st :: JSValue_st where
  "JS_UNINITIALIZED_st = JS_MKVAL_st JS_TAG_UNINITIALIZED 0"

definition JS_NewBool_st :: "bool \<Rightarrow> JSValue_st" where
  "JS_NewBool_st val = JS_MKVAL_st JS_TAG_BOOL (if val then 1 else 0)"

definition JS_NewInt32_st :: "32 word \<Rightarrow> JSValue_st" where
  "JS_NewInt32_st val = JS_MKVAL_st JS_TAG_INT val"

definition JS_NewFloat64_st :: "double \<Rightarrow> JSValue_st" where
  "JS_NewFloat64_st val = uu_JS_NewFloat64_st val"

definition JS_NewInt64_st :: "(64 word \<Rightarrow> double) \<Rightarrow> 64 word \<Rightarrow> JSValue_st" where
  "JS_NewInt64_st i64_to_double val =
     (if sint val \<ge> INT32_MIN \<and> sint val \<le> INT32_MAX
      then JS_NewInt32_st (ucast val)
      else JS_NewFloat64_st (i64_to_double val))"

definition JS_NewUint32_st :: "(32 word \<Rightarrow> double) \<Rightarrow> 32 word \<Rightarrow> JSValue_st" where
  "JS_NewUint32_st u32_to_double val =
     (if uint val \<le> INT32_MAX
      then JS_NewInt32_st val
      else JS_NewFloat64_st (u32_to_double val))"

definition JS_IsNumber_st :: "JSValue_st \<Rightarrow> bool" where
  "JS_IsNumber_st v \<longleftrightarrow>
     (let tag = JS_VALUE_GET_TAG_st v in tag = JS_TAG_INT \<or> JS_TAG_IS_FLOAT64_st tag)"

definition JS_IsBigInt_st :: "JSValue_st \<Rightarrow> bool" where
  "JS_IsBigInt_st v \<longleftrightarrow>
     (let tag = JS_VALUE_GET_TAG_st v
      in tag = JS_TAG_BIG_INT \<or> tag = JS_TAG_SHORT_BIG_INT)"

definition JS_IsBool_st :: "JSValue_st \<Rightarrow> bool" where
  "JS_IsBool_st v \<longleftrightarrow> JS_VALUE_GET_TAG_st v = JS_TAG_BOOL"

definition JS_IsNull_st :: "JSValue_st \<Rightarrow> bool" where
  "JS_IsNull_st v \<longleftrightarrow> JS_VALUE_GET_TAG_st v = JS_TAG_NULL"

definition JS_IsUndefined_st :: "JSValue_st \<Rightarrow> bool" where
  "JS_IsUndefined_st v \<longleftrightarrow> JS_VALUE_GET_TAG_st v = JS_TAG_UNDEFINED"

definition JS_IsException_st :: "JSValue_st \<Rightarrow> bool" where
  "JS_IsException_st v \<longleftrightarrow> JS_VALUE_GET_TAG_st v = JS_TAG_EXCEPTION"

definition JS_IsUninitialized_st :: "JSValue_st \<Rightarrow> bool" where
  "JS_IsUninitialized_st v \<longleftrightarrow> JS_VALUE_GET_TAG_st v = JS_TAG_UNINITIALIZED"

subsection \<open>The checking layout\<close>

text \<open>
  \<^verbatim>\<open>typedef struct JSValue *JSValue;\<close>: a pointer-sized handle, read through
  \<^verbatim>\<open>intptr_t\<close>, which is taken to be 64 bits wide. The header says of this
  mode that it ``does not produce working code''. The right shift of a signed
  value is the arithmetic one.
\<close>

type_synonym JSValue_ck = "64 word"

text \<open>\<^verbatim>\<open>((JSValue)((tag) | (intptr_t)(val) << 4))\<close>\<close>

definition JS_MKVAL_ck :: "32 word \<Rightarrow> 32 word \<Rightarrow> JSValue_ck" where
  "JS_MKVAL_ck tag val = scast tag OR push_bit 4 (scast val)"

definition JS_VALUE_GET_TAG_ck :: "JSValue_ck \<Rightarrow> 32 word" where
  "JS_VALUE_GET_TAG_ck v = ucast (v AND 15)"

definition JS_VALUE_GET_NORM_TAG_ck :: "JSValue_ck \<Rightarrow> 32 word" where
  "JS_VALUE_GET_NORM_TAG_ck v = ucast (v AND 15)"

definition JS_VALUE_GET_INT_ck :: "JSValue_ck \<Rightarrow> 32 word" where
  "JS_VALUE_GET_INT_ck v = ucast (signed_drop_bit 4 v)"

definition JS_VALUE_GET_BOOL_ck :: "JSValue_ck \<Rightarrow> 32 word" where
  "JS_VALUE_GET_BOOL_ck v = ucast (signed_drop_bit 4 v)"

definition JS_VALUE_GET_SHORT_BIG_INT_ck :: "JSValue_ck \<Rightarrow> 32 word" where
  "JS_VALUE_GET_SHORT_BIG_INT_ck v = JS_VALUE_GET_INT_ck v"

text \<open>
  \<^verbatim>\<open>((double)((intptr_t)(v) >> 4))\<close>: the conversion of an \<^verbatim>\<open>intptr_t\<close> to a
  double is a parameter, as in \<^verbatim>\<open>JS_NewInt64\<close>.
\<close>

definition JS_VALUE_GET_FLOAT64_ck :: "(64 word \<Rightarrow> double) \<Rightarrow> JSValue_ck \<Rightarrow> double" where
  "JS_VALUE_GET_FLOAT64_ck intptr_to_double v = intptr_to_double (signed_drop_bit 4 v)"

text \<open>\<^verbatim>\<open>((int)(tag) == JS_TAG_FLOAT64)\<close>\<close>

definition JS_TAG_IS_FLOAT64_ck :: "32 word \<Rightarrow> bool" where
  "JS_TAG_IS_FLOAT64_ck tag \<longleftrightarrow> tag = JS_TAG_FLOAT64"

definition JS_VALUE_IS_BOTH_INT_ck :: "JSValue_ck \<Rightarrow> JSValue_ck \<Rightarrow> bool" where
  "JS_VALUE_IS_BOTH_INT_ck v1 v2 \<longleftrightarrow>
     (JS_VALUE_GET_TAG_ck v1 OR JS_VALUE_GET_TAG_ck v2) = 0"

definition JS_VALUE_IS_BOTH_FLOAT_ck :: "JSValue_ck \<Rightarrow> JSValue_ck \<Rightarrow> bool" where
  "JS_VALUE_IS_BOTH_FLOAT_ck v1 v2 \<longleftrightarrow>
     JS_TAG_IS_FLOAT64_ck (JS_VALUE_GET_TAG_ck v1) \<and>
     JS_TAG_IS_FLOAT64_ck (JS_VALUE_GET_TAG_ck v2)"

subsection \<open>The answers of the inspection predicates\<close>

text \<open>
  The seven inspection predicates applied to one value, in the order
  number, big integer, boolean, null, undefined, uninitialized, exception.
\<close>

definition tag_classes_nb :: "JSValue_nb \<Rightarrow> bool list" where
  "tag_classes_nb v =
     [JS_IsNumber_nb v, JS_IsBigInt_nb v, JS_IsBool_nb v, JS_IsNull_nb v,
      JS_IsUndefined_nb v, JS_IsUninitialized_nb v, JS_IsException_nb v]"

definition tag_classes_st :: "JSValue_st \<Rightarrow> bool list" where
  "tag_classes_st v =
     [JS_IsNumber_st v, JS_IsBigInt_st v, JS_IsBool_st v, JS_IsNull_st v,
      JS_IsUndefined_st v, JS_IsUninitialized_st v, JS_IsException_st v]"

subsection \<open>NaN in IEEE 754\<close>

text \<open>
  What it means for a double to be a NaN: in the binary64 format of IEEE 754 a
  bit pattern denotes a NaN when its eleven exponent bits (62 to 52) are all set
  and its fraction (bits 51 to 0) is not zero. This is the standard's definition,
  not the header's; \<open>is_nan_bits\<close> above is the header's test, and the two are
  proved equal below.
\<close>

definition ieee_is_nan :: "double \<Rightarrow> bool" where
  "ieee_is_nan d \<longleftrightarrow> take_bit 11 (drop_bit 52 d) = 0x7ff \<and> take_bit 52 d \<noteq> 0"

section \<open>Properties\<close>

lemmas tag_defs =
  JS_TAG_FIRST_def JS_TAG_BIG_INT_def JS_TAG_SYMBOL_def JS_TAG_STRING_def
  JS_TAG_MODULE_def JS_TAG_FUNCTION_BYTECODE_def JS_TAG_OBJECT_def JS_TAG_INT_def
  JS_TAG_BOOL_def JS_TAG_NULL_def JS_TAG_UNDEFINED_def JS_TAG_UNINITIALIZED_def
  JS_TAG_CATCH_OFFSET_def JS_TAG_EXCEPTION_def JS_TAG_SHORT_BIG_INT_def
  JS_TAG_FLOAT64_def

lemmas tag_list_defs =
  ref_count_tags_def inline_non_float_tags_def non_float_tags_def enum_tags_def
  inline_tags_def

subsection \<open>Encoding and decoding of tag and payload\<close>

lemma get_tag_mkval_nb: "JS_VALUE_GET_TAG_nb (JS_MKVAL_nb t p) = t"
  unfolding JS_VALUE_GET_TAG_nb_def JS_MKVAL_nb_def
  by (rule bit_word_eqI) (auto simp add: bit_simps dest: bit_imp_le_length)

lemma get_int_mkval_nb: "JS_VALUE_GET_INT_nb (JS_MKVAL_nb t p) = p"
  unfolding JS_VALUE_GET_INT_nb_def JS_MKVAL_nb_def
  by (rule bit_word_eqI) (auto simp add: bit_simps)

lemma ucast_scast_id: "(ucast (scast (t :: 32 word) :: 64 word) :: 32 word) = t"
  by (rule bit_word_eqI) (auto simp add: bit_simps)

lemma get_tag_mkval_st: "JS_VALUE_GET_TAG_st (JS_MKVAL_st t p) = t"
  by (simp add: JS_VALUE_GET_TAG_st_def JS_MKVAL_st_def ucast_scast_id)

lemma get_tag_mkptr_nb: "JS_VALUE_GET_TAG_nb (JS_MKPTR_nb t p) = t"
  using get_tag_mkval_nb[of t p] by (simp add: JS_MKPTR_nb_def JS_MKVAL_nb_def)

lemma get_tag_mkptr_st: "JS_VALUE_GET_TAG_st (JS_MKPTR_st t q) = t"
  by (simp add: JS_VALUE_GET_TAG_st_def JS_MKPTR_st_def ucast_scast_id)

lemma get_int_mkval_st: "JS_VALUE_GET_INT_st (JS_MKVAL_st t p) = Some p"
  by (simp add: JS_VALUE_GET_INT_st_def JS_MKVAL_st_def)

lemma addend_val: "JS_FLOAT64_TAG_ADDEND = 0x7ff8000a"
  by (simp add: JS_FLOAT64_TAG_ADDEND_def JS_TAG_FIRST_def)

lemma addend_shifted: "push_bit 32 (scast JS_FLOAT64_TAG_ADDEND :: 64 word) = 0x7ff8000a00000000"
  by (simp add: addend_val)

lemma addend_shifted': "push_bit 32 (scast JS_FLOAT64_TAG_ADDEND :: 64 word) = push_bit 32 (ucast (0x7ff8000a :: 32 word))"
  by (simp add: addend_val)

lemma nan_val: "JS_NAN_nb = 0xfffffff600000000"
  by (simp add: JS_NAN_nb_def addend_val)

lemma nan_tag: "JS_VALUE_GET_TAG_nb JS_NAN_nb = - 10"
  by (simp add: nan_val JS_VALUE_GET_TAG_nb_def)

lemma neg9_le_1: "\<not> (- 9 \<le> (1::32 word))"
  by (simp add: word_le_def)

subsection \<open>The tag word of an encoded double\<close>

lemma int_hi:
  "((x - k * 2^32) mod 2^64 div 2^32) mod 2^32 = ((x div 2^32) mod 2^32 - k) mod (2^32 :: int)"
proof -
  have a: "(x - k * 2^32) mod 2^64 div 2^32 = ((x - k * 2^32) div 2^32) mod 2^32"
    using div_exp_mod_exp_eq[of "x - k * 2^32" 32 32]
    by (simp add: drop_bit_eq_div take_bit_eq_mod)
  have b: "(x - k * 2^32) div 2^32 = x div 2^32 - k"
    by (metis div_mult_self1 add.commute diff_conv_add_uminus minus_mult_left
        power_not_zero[of 2 32] zero_neq_numeral)
  show ?thesis unfolding a b by (simp add: mod_diff_left_eq)
qed

lemma hi_sub:
  "(ucast (drop_bit 32 ((d::64 word) - push_bit 32 (ucast k))) :: 32 word)
     = ucast (drop_bit 32 d) - (k :: 32 word)"
proof (rule word_uint_eqI)
  have pk: "uint (push_bit 32 (ucast k :: 64 word)) = uint k * 2^32"
  proof -
    have "uint k * 2^32 < 2^64" using uint_lt2p[of k] by simp
    moreover have "0 \<le> uint k * 2^32" by simp
    ultimately show ?thesis
      by (simp add: uint_word_ariths unsigned_ucast_eq push_bit_eq_mult take_bit_eq_mod)
  qed
  have l: "uint (ucast (drop_bit 32 (d - push_bit 32 (ucast k))) :: 32 word)
         = ((uint d - uint k * 2^32) mod 2^64 div 2^32) mod 2^32"
    apply (simp only: unsigned_ucast_eq unsigned_drop_bit_eq)
    apply (simp add: uint_word_ariths pk take_bit_eq_mod drop_bit_eq_div)
    done
  have m: "uint d mod 18446744073709551616 = uint d"
    using uint_lt2p[of d] by simp
  have r: "uint ((ucast (drop_bit 32 d) :: 32 word) - k)
         = ((uint d div 2^32) mod 2^32 - uint k) mod 2^32"
    apply (simp only: uint_word_ariths unsigned_ucast_eq unsigned_drop_bit_eq)
    apply (simp add: take_bit_eq_mod drop_bit_eq_div mod_diff_left_eq m)
    done
  show "uint (ucast (drop_bit 32 (d - push_bit 32 (ucast k))) :: 32 word)
      = uint ((ucast (drop_bit 32 d) :: 32 word) - k)"
    unfolding l r by (rule int_hi)
qed

lemma get_tag_sub_addend:
  "JS_VALUE_GET_TAG_nb (d - push_bit 32 (scast JS_FLOAT64_TAG_ADDEND))
     = JS_VALUE_GET_TAG_nb d - 0x7ff8000a"
  unfolding JS_VALUE_GET_TAG_nb_def addend_shifted' hi_sub ..

lemma mask63: "(0x7fffffffffffffff :: 64 word) = mask 63"
  by (simp add: mask_eq_exp_minus_1)

lemma unat_and63: "unat ((d :: 64 word) AND 0x7fffffffffffffff) = unat d mod 2^63"
  unfolding mask63
  by (simp add: unsigned_take_bit_eq take_bit_eq_mod unat_mod flip: take_bit_eq_mask)

lemma unat_hi: "unat (JS_VALUE_GET_TAG_nb d) = unat d div 2^32"
proof -
  have "unat d < 2^64" using unsigned_less[of d, where 'a=nat] by simp
  then have "unat d div 2^32 < 2^32" by simp
  then show ?thesis
    unfolding JS_VALUE_GET_TAG_nb_def
    apply (simp only: unsigned_ucast_eq unat_drop_bit_eq)
    apply (simp add: take_bit_eq_mod drop_bit_eq_div)
    done
qed

lemma nat_hi_mod: "(n div 2^32) mod 2^31 = (n mod 2^63) div (2^32 :: nat)"
  using div_exp_mod_exp_eq[of n 32 31] by (simp add: drop_bit_eq_div take_bit_eq_mod)

lemma not_nan_hi:
  assumes "\<not> is_nan_bits d"
  shows "unat (JS_VALUE_GET_TAG_nb d) mod 2^31 \<le> 0x7ff00000"
proof -
  from assms have "unat (d AND 0x7fffffffffffffff) \<le> unat (0x7ff0000000000000 :: 64 word)"
    by (simp add: is_nan_bits_def word_le_nat_alt not_less)
  then have "unat d mod 2^63 \<le> 0x7ff0000000000000" by (simp add: unat_and63)
  then have "(unat d mod 2^63) div 2^32 \<le> 0x7ff0000000000000 div (2^32 :: nat)"
    by (rule div_le_mono)
  then have "(unat d div 2^32) mod 2^31 \<le> 0x7ff0000000000000 div (2^32 :: nat)"
    unfolding nat_hi_mod .
  then show ?thesis unfolding unat_hi by simp
qed

lemma nat_rng:
  assumes "n < 2^32" "n mod 2^31 \<le> (0x7ff00000 :: nat)"
  shows "n \<le> 0x7ff00000 \<or> (0x80000000 \<le> n \<and> n \<le> 0xfff00000)"
proof (cases "n < 2^31")
  case True
  with assms show ?thesis by simp
next
  case False
  then have "n mod 2^31 = n - 2^31"
    using assms(1) by (simp add: mod_if)
  with assms False show ?thesis by simp
qed

lemma hi_rng:
  assumes "unat (h :: 32 word) mod 2^31 \<le> 0x7ff00000"
  shows "h - 0x7ff8000a - (- 9) > 8 - (- 9)"
    and "\<not> (h - 0x7ff8000a \<ge> - 9)"
    and "h - 0x7ff8000a \<noteq> 0xfffffff6"
proof -
  have "unat h < 2^32" using unsigned_less[of h, where 'a=nat] by simp
  from nat_rng[OF this assms]
  have c: "unat h \<le> 0x7ff00000 \<or> (0x80000000 \<le> unat h \<and> unat h \<le> 0xfff00000)" .
  show "h - 0x7ff8000a - (- 9) > 8 - (- 9)" using c by (unat_arith; auto)
  show "\<not> (h - 0x7ff8000a \<ge> - 9)" using c by (unat_arith; auto)
  show "h - 0x7ff8000a \<noteq> 0xfffffff6" using c by (unat_arith; auto)
qed

text \<open>The raw tag of every encoded double lies strictly above the enumerated range.\<close>

lemma new_float64_tag:
  "JS_VALUE_GET_TAG_nb (uu_JS_NewFloat64_nb d) - JS_TAG_FIRST > JS_TAG_FLOAT64 - JS_TAG_FIRST"
proof (cases "is_nan_bits d")
  case True
  then have "uu_JS_NewFloat64_nb d = JS_NAN_nb"
    by (simp add: uu_JS_NewFloat64_nb_def is_nan_bits_def)
  then show ?thesis by (simp add: nan_tag tag_defs)
next
  case False
  then have e: "uu_JS_NewFloat64_nb d = d - push_bit 32 (scast JS_FLOAT64_TAG_ADDEND)"
    by (simp add: uu_JS_NewFloat64_nb_def is_nan_bits_def)
  show ?thesis
    unfolding e get_tag_sub_addend tag_defs
    using hi_rng(1)[OF not_nan_hi[OF False]] .
qed

lemma new_float64_no_ref_count: "\<not> JS_VALUE_HAS_REF_COUNT_nb (uu_JS_NewFloat64_nb d)"
proof (cases "is_nan_bits d")
  case True
  then have "uu_JS_NewFloat64_nb d = JS_NAN_nb"
    by (simp add: uu_JS_NewFloat64_nb_def is_nan_bits_def)
  then show ?thesis by (simp add: JS_VALUE_HAS_REF_COUNT_nb_def nan_tag tag_defs)
next
  case False
  then have e: "uu_JS_NewFloat64_nb d = d - push_bit 32 (scast JS_FLOAT64_TAG_ADDEND)"
    by (simp add: uu_JS_NewFloat64_nb_def is_nan_bits_def)
  show ?thesis
    unfolding JS_VALUE_HAS_REF_COUNT_nb_def e get_tag_sub_addend tag_defs
    using hi_rng(2)[OF not_nan_hi[OF False]] .
qed

lemma above_range_not_enum:
  "t - JS_TAG_FIRST > JS_TAG_FLOAT64 - JS_TAG_FIRST \<Longrightarrow> t \<notin> set enum_tags"
  unfolding tag_list_defs tag_defs by auto

lemma new_float64_is_float:
  "JS_TAG_IS_FLOAT64_nb (JS_VALUE_GET_TAG_nb (uu_JS_NewFloat64_nb d))"
  using new_float64_tag[of d] by (simp add: JS_TAG_IS_FLOAT64_nb_def)

subsection \<open>The header's NaN test is the IEEE 754 one\<close>

lemma nat_nan_test:
  assumes "m < (2::nat)^63"
  shows "m > 0x7ff0000000000000 \<longleftrightarrow> m div 2^52 = 0x7ff \<and> m mod 2^52 \<noteq> 0"
proof -
  define q where "q = m div 2^52"
  define r where "r = m mod 2^52"
  have d: "m = q * 4503599627370496 + r" by (simp add: q_def r_def)
  have l: "r < 4503599627370496" by (simp add: r_def)
  have u: "q < 2048" using assms by (simp add: q_def less_mult_imp_div_less)
  have "0x7ff0000000000000 < q * 4503599627370496 + r \<longleftrightarrow> q = 2047 \<and> r \<noteq> 0"
    using l u by arith
  then show ?thesis unfolding d[symmetric] q_def r_def by simp
qed

lemma is_nan_bits_ieee: "is_nan_bits d \<longleftrightarrow> ieee_is_nan d"
proof -
  let ?m = "unat d mod 2^63"
  have m: "?m < 2^63" by simp
  have a: "is_nan_bits d \<longleftrightarrow> ?m > 0x7ff0000000000000"
    by (simp add: is_nan_bits_def word_less_nat_alt unat_and63)
  have b: "unat (take_bit 11 (drop_bit 52 d)) = ?m div 2^52"
    using div_exp_mod_exp_eq[of "unat d" 52 11]
    apply (simp only: unsigned_take_bit_eq unat_drop_bit_eq)
    apply (simp add: take_bit_eq_mod drop_bit_eq_div)
    done
  have c: "unat (take_bit 52 d) = ?m mod 2^52"
  proof -
    have "(2::nat)^52 dvd 2^63" by (rule le_imp_power_dvd) simp
    then have "unat d mod 2^63 mod 2^52 = unat d mod 2^52" by (rule mod_mod_cancel)
    then show ?thesis
      apply (simp only: unsigned_take_bit_eq)
      apply (simp add: take_bit_eq_mod)
      done
  qed
  have "ieee_is_nan d \<longleftrightarrow> unat (take_bit 11 (drop_bit 52 d)) = 0x7ff \<and> unat (take_bit 52 d) \<noteq> 0"
    unfolding ieee_is_nan_def
      word_unat_eq_iff[of "take_bit 11 (drop_bit 52 d)"] word_unat_eq_iff[of "take_bit 52 d"]
    by simp
  then show ?thesis unfolding a b c nat_nan_test[OF m] by simp
qed

subsection \<open>The checking layout on small tags\<close>

lemma fifteen: "(15 :: 64 word) = mask 4" by (simp add: mask_eq_exp_minus_1)

lemma small_tag_bits:
  assumes "drop_bit 4 (t :: 32 word) = 0"
  shows "bit t n \<Longrightarrow> n < 4"
proof (rule ccontr)
  assume b: "bit t n" and "\<not> n < 4"
  then obtain m where "n = 4 + m" by (metis le_Suc_ex not_less)
  with b have "bit (drop_bit 4 t) m" by (simp add: bit_drop_bit_eq)
  with assms show False by simp
qed

lemma get_tag_mkval_ck:
  assumes "drop_bit 4 (t :: 32 word) = 0"
  shows "JS_VALUE_GET_TAG_ck (JS_MKVAL_ck t p) = t"
  unfolding JS_VALUE_GET_TAG_ck_def JS_MKVAL_ck_def fifteen
  apply (rule bit_word_eqI)
  using small_tag_bits[OF assms]
  apply (auto simp add: bit_simps)
  done

lemma get_int_mkval_ck:
  assumes "drop_bit 4 (t :: 32 word) = 0"
  shows "JS_VALUE_GET_INT_ck (JS_MKVAL_ck t p) = p"
  unfolding JS_VALUE_GET_INT_ck_def JS_MKVAL_ck_def
  apply (rule bit_word_eqI)
  apply (auto simp add: bit_simps bit_signed_drop_bit_iff dest!: small_tag_bits[OF assms])
  done

lemma inline_tags_small: "t \<in> set inline_tags \<Longrightarrow> drop_bit 4 t = 0"
  unfolding tag_list_defs tag_defs by auto

subsection \<open>Normalised tags and float payloads\<close>

lemma not_17_le_1: "\<not> (17 \<le> (1::32 word))"
  by (simp add: word_le_def)

lemma get_norm_tag_mkval_nb:
  "t \<in> set enum_tags \<Longrightarrow> JS_VALUE_GET_NORM_TAG_nb (JS_MKVAL_nb t p) = t"
  unfolding JS_VALUE_GET_NORM_TAG_nb_def get_tag_mkval_nb Let_def JS_TAG_IS_FLOAT64_nb_def
  unfolding tag_list_defs tag_defs
  by (auto simp add: not_17_le_1)

lemma get_float64_new_nb:
  "JS_VALUE_GET_FLOAT64_nb (uu_JS_NewFloat64_nb d)
     = (if is_nan_bits d then 0x7ff8000000000000 else d)"
  by (simp add: JS_VALUE_GET_FLOAT64_nb_def uu_JS_NewFloat64_nb_def is_nan_bits_def JS_NAN_nb_def)

lemma get_float64_new_st: "JS_VALUE_GET_FLOAT64_st (uu_JS_NewFloat64_st d) = Some d"
  by (simp add: JS_VALUE_GET_FLOAT64_st_def uu_JS_NewFloat64_st_def)

lemma is_float_nb_iff:
  "JS_TAG_IS_FLOAT64_nb tag \<longleftrightarrow>
     tag = JS_TAG_FLOAT64 \<or> tag - JS_TAG_FIRST > JS_TAG_FLOAT64 - JS_TAG_FIRST"
  unfolding JS_TAG_IS_FLOAT64_nb_def tag_defs by (auto simp add: order_le_less)

lemma non_float_not_float_nb: "t \<in> set non_float_tags \<Longrightarrow> \<not> JS_TAG_IS_FLOAT64_nb t"
  unfolding JS_TAG_IS_FLOAT64_nb_def tag_list_defs tag_defs
  by (auto simp add: not_17_le_1)

lemma get_tag_new_float64_st: "JS_VALUE_GET_TAG_st (uu_JS_NewFloat64_st d) = JS_TAG_FLOAT64"
  by (simp add: JS_VALUE_GET_TAG_st_def uu_JS_NewFloat64_st_def ucast_scast_id)

lemma new_float64_tag_not_int: "JS_VALUE_GET_TAG_nb (uu_JS_NewFloat64_nb d) \<noteq> JS_TAG_INT"
proof
  assume "JS_VALUE_GET_TAG_nb (uu_JS_NewFloat64_nb d) = JS_TAG_INT"
  moreover have "JS_TAG_INT \<in> set enum_tags" by (simp add: tag_list_defs)
  ultimately show False using above_range_not_enum[OF new_float64_tag[of d]] by simp
qed

subsection \<open>Construction from integers\<close>

lemma sint_ucast_in_range:
  assumes "INT32_MIN \<le> sint (v :: 64 word)" "sint v \<le> INT32_MAX"
  shows "sint (ucast v :: 32 word) = sint v"
proof -
  have "sint (ucast v :: 32 word) = signed_take_bit 31 (uint v)"
    by (simp add: signed_ucast_eq)
  also have "\<dots> = signed_take_bit 31 (signed_take_bit 63 (uint v))"
    by simp
  also have "\<dots> = signed_take_bit 31 (sint v)"
    by (simp add: sint_uint)
  also have "\<dots> = sint v"
    using assms by (intro signed_take_bit_int_eq_self) (simp_all add: INT32_MIN_def INT32_MAX_def)
  finally show ?thesis .
qed

lemma sint_eq_uint_in_range:
  assumes "uint (w :: 32 word) \<le> INT32_MAX"
  shows "sint w = uint w"
proof -
  have lo: "- (2 ^ 31) \<le> uint w"
    by (rule order_trans[where y = 0]) simp_all
  have hi: "uint w < 2 ^ 31"
    using assms by (simp add: INT32_MAX_def)
  have "sint w = signed_take_bit 31 (uint w)" by (simp add: sint_uint)
  also have "\<dots> = uint w"
    by (rule signed_take_bit_int_eq_self[OF lo hi])
  finally show ?thesis .
qed

lemma new_int64_nb_in:
  assumes "INT32_MIN \<le> sint v \<and> sint v \<le> INT32_MAX"
  shows "JS_NewInt64_nb cvt v = JS_MKVAL_nb JS_TAG_INT (ucast v)"
    and "JS_VALUE_GET_TAG_nb (JS_NewInt64_nb cvt v) = JS_TAG_INT"
    and "sint (JS_VALUE_GET_INT_nb (JS_NewInt64_nb cvt v)) = sint v"
  using assms
  by (simp_all add: JS_NewInt64_nb_def JS_NewInt32_nb_def get_tag_mkval_nb get_int_mkval_nb
      sint_ucast_in_range)

lemma new_int64_nb_out:
  assumes "\<not> (INT32_MIN \<le> sint v \<and> sint v \<le> INT32_MAX)"
  shows "JS_NewInt64_nb cvt v = uu_JS_NewFloat64_nb (cvt v)"
    and "JS_TAG_IS_FLOAT64_nb (JS_VALUE_GET_TAG_nb (JS_NewInt64_nb cvt v))"
    and "JS_VALUE_GET_TAG_nb (JS_NewInt64_nb cvt v) \<noteq> JS_TAG_INT"
proof -
  show e: "JS_NewInt64_nb cvt v = uu_JS_NewFloat64_nb (cvt v)"
    unfolding JS_NewInt64_nb_def JS_NewFloat64_nb_def using assms by (rule if_not_P)
  show "JS_TAG_IS_FLOAT64_nb (JS_VALUE_GET_TAG_nb (JS_NewInt64_nb cvt v))"
    and "JS_VALUE_GET_TAG_nb (JS_NewInt64_nb cvt v) \<noteq> JS_TAG_INT"
    by (simp_all add: e new_float64_is_float new_float64_tag_not_int)
qed

lemma new_int64_st_in:
  assumes "INT32_MIN \<le> sint v \<and> sint v \<le> INT32_MAX"
  shows "JS_NewInt64_st cvt v = JS_MKVAL_st JS_TAG_INT (ucast v)"
    and "JS_VALUE_GET_TAG_st (JS_NewInt64_st cvt v) = JS_TAG_INT"
    and "map_option sint (JS_VALUE_GET_INT_st (JS_NewInt64_st cvt v)) = Some (sint v)"
  using assms
  by (simp_all add: JS_NewInt64_st_def JS_NewInt32_st_def get_tag_mkval_st get_int_mkval_st
      sint_ucast_in_range)

lemma new_int64_st_out:
  assumes "\<not> (INT32_MIN \<le> sint v \<and> sint v \<le> INT32_MAX)"
  shows "JS_NewInt64_st cvt v = uu_JS_NewFloat64_st (cvt v)"
    and "JS_TAG_IS_FLOAT64_st (JS_VALUE_GET_TAG_st (JS_NewInt64_st cvt v))"
    and "JS_VALUE_GET_TAG_st (JS_NewInt64_st cvt v) \<noteq> JS_TAG_INT"
proof -
  show e: "JS_NewInt64_st cvt v = uu_JS_NewFloat64_st (cvt v)"
    unfolding JS_NewInt64_st_def JS_NewFloat64_st_def using assms by (rule if_not_P)
  show "JS_TAG_IS_FLOAT64_st (JS_VALUE_GET_TAG_st (JS_NewInt64_st cvt v))"
    and "JS_VALUE_GET_TAG_st (JS_NewInt64_st cvt v) \<noteq> JS_TAG_INT"
    by (simp_all add: e get_tag_new_float64_st JS_TAG_IS_FLOAT64_st_def tag_defs)
qed

lemma new_uint32_nb_in:
  assumes "uint w \<le> INT32_MAX"
  shows "JS_NewUint32_nb cvt w = JS_MKVAL_nb JS_TAG_INT w"
    and "JS_VALUE_GET_TAG_nb (JS_NewUint32_nb cvt w) = JS_TAG_INT"
    and "sint (JS_VALUE_GET_INT_nb (JS_NewUint32_nb cvt w)) = uint w"
  using assms
  by (simp_all add: JS_NewUint32_nb_def JS_NewInt32_nb_def get_tag_mkval_nb get_int_mkval_nb
      sint_eq_uint_in_range)

lemma new_uint32_nb_out:
  assumes "\<not> uint w \<le> INT32_MAX"
  shows "JS_NewUint32_nb cvt w = uu_JS_NewFloat64_nb (cvt w)"
    and "JS_TAG_IS_FLOAT64_nb (JS_VALUE_GET_TAG_nb (JS_NewUint32_nb cvt w))"
    and "JS_VALUE_GET_TAG_nb (JS_NewUint32_nb cvt w) \<noteq> JS_TAG_INT"
proof -
  show e: "JS_NewUint32_nb cvt w = uu_JS_NewFloat64_nb (cvt w)"
    unfolding JS_NewUint32_nb_def JS_NewFloat64_nb_def using assms by (rule if_not_P)
  show "JS_TAG_IS_FLOAT64_nb (JS_VALUE_GET_TAG_nb (JS_NewUint32_nb cvt w))"
    and "JS_VALUE_GET_TAG_nb (JS_NewUint32_nb cvt w) \<noteq> JS_TAG_INT"
    by (simp_all add: e new_float64_is_float new_float64_tag_not_int)
qed

lemma new_uint32_st_in:
  assumes "uint w \<le> INT32_MAX"
  shows "JS_NewUint32_st cvt w = JS_MKVAL_st JS_TAG_INT w"
    and "JS_VALUE_GET_TAG_st (JS_NewUint32_st cvt w) = JS_TAG_INT"
    and "map_option sint (JS_VALUE_GET_INT_st (JS_NewUint32_st cvt w)) = Some (uint w)"
  using assms
  by (simp_all add: JS_NewUint32_st_def JS_NewInt32_st_def get_tag_mkval_st get_int_mkval_st
      sint_eq_uint_in_range)

lemma new_uint32_st_out:
  assumes "\<not> uint w \<le> INT32_MAX"
  shows "JS_NewUint32_st cvt w = uu_JS_NewFloat64_st (cvt w)"
    and "JS_TAG_IS_FLOAT64_st (JS_VALUE_GET_TAG_st (JS_NewUint32_st cvt w))"
    and "JS_VALUE_GET_TAG_st (JS_NewUint32_st cvt w) \<noteq> JS_TAG_INT"
proof -
  show e: "JS_NewUint32_st cvt w = uu_JS_NewFloat64_st (cvt w)"
    unfolding JS_NewUint32_st_def JS_NewFloat64_st_def using assms by (rule if_not_P)
  show "JS_TAG_IS_FLOAT64_st (JS_VALUE_GET_TAG_st (JS_NewUint32_st cvt w))"
    and "JS_VALUE_GET_TAG_st (JS_NewUint32_st cvt w) \<noteq> JS_TAG_INT"
    by (simp_all add: e get_tag_new_float64_st JS_TAG_IS_FLOAT64_st_def tag_defs)
qed

subsection \<open>Classification of constructed values\<close>

lemma tag_classes_nb_of_tag:
  "tag_classes_nb v =
     (let tag = JS_VALUE_GET_TAG_nb v in
      [tag = JS_TAG_INT \<or> JS_TAG_IS_FLOAT64_nb tag,
       tag = JS_TAG_BIG_INT \<or> tag = JS_TAG_SHORT_BIG_INT,
       tag = JS_TAG_BOOL, tag = JS_TAG_NULL, tag = JS_TAG_UNDEFINED,
       tag = JS_TAG_UNINITIALIZED, tag = JS_TAG_EXCEPTION])"
  by (simp add: tag_classes_nb_def JS_IsNumber_nb_def JS_IsBigInt_nb_def JS_IsBool_nb_def
      JS_IsNull_nb_def JS_IsUndefined_nb_def JS_IsUninitialized_nb_def JS_IsException_nb_def
      Let_def)

lemma tag_classes_st_of_tag:
  "tag_classes_st v =
     (let tag = JS_VALUE_GET_TAG_st v in
      [tag = JS_TAG_INT \<or> JS_TAG_IS_FLOAT64_st tag,
       tag = JS_TAG_BIG_INT \<or> tag = JS_TAG_SHORT_BIG_INT,
       tag = JS_TAG_BOOL, tag = JS_TAG_NULL, tag = JS_TAG_UNDEFINED,
       tag = JS_TAG_UNINITIALIZED, tag = JS_TAG_EXCEPTION])"
  by (simp add: tag_classes_st_def JS_IsNumber_st_def JS_IsBigInt_st_def JS_IsBool_st_def
      JS_IsNull_st_def JS_IsUndefined_st_def JS_IsUninitialized_st_def JS_IsException_st_def
      Let_def)

lemma classes_mkval_nb:
  "tag_classes_nb (JS_MKVAL_nb JS_TAG_INT x) = [True, False, False, False, False, False, False]"
  "tag_classes_nb (JS_MKVAL_nb JS_TAG_SHORT_BIG_INT x) = [False, True, False, False, False, False, False]"
  "tag_classes_nb (JS_MKVAL_nb JS_TAG_BOOL x) = [False, False, True, False, False, False, False]"
  "tag_classes_nb (JS_MKVAL_nb JS_TAG_NULL x) = [False, False, False, True, False, False, False]"
  "tag_classes_nb (JS_MKVAL_nb JS_TAG_UNDEFINED x) = [False, False, False, False, True, False, False]"
  "tag_classes_nb (JS_MKVAL_nb JS_TAG_UNINITIALIZED x) = [False, False, False, False, False, True, False]"
  "tag_classes_nb (JS_MKVAL_nb JS_TAG_EXCEPTION x) = [False, False, False, False, False, False, True]"
  by (simp_all add: tag_classes_nb_of_tag get_tag_mkval_nb JS_TAG_IS_FLOAT64_nb_def tag_defs
      not_17_le_1)

lemma classes_mkval_st:
  "tag_classes_st (JS_MKVAL_st JS_TAG_INT x) = [True, False, False, False, False, False, False]"
  "tag_classes_st (JS_MKVAL_st JS_TAG_SHORT_BIG_INT x) = [False, True, False, False, False, False, False]"
  "tag_classes_st (JS_MKVAL_st JS_TAG_BOOL x) = [False, False, True, False, False, False, False]"
  "tag_classes_st (JS_MKVAL_st JS_TAG_NULL x) = [False, False, False, True, False, False, False]"
  "tag_classes_st (JS_MKVAL_st JS_TAG_UNDEFINED x) = [False, False, False, False, True, False, False]"
  "tag_classes_st (JS_MKVAL_st JS_TAG_UNINITIALIZED x) = [False, False, False, False, False, True, False]"
  "tag_classes_st (JS_MKVAL_st JS_TAG_EXCEPTION x) = [False, False, False, False, False, False, True]"
  by (simp_all add: tag_classes_st_of_tag get_tag_mkval_st JS_TAG_IS_FLOAT64_st_def tag_defs)

lemma classes_float_nb:
  "tag_classes_nb (uu_JS_NewFloat64_nb d) = [True, False, False, False, False, False, False]"
proof -
  have "JS_VALUE_GET_TAG_nb (uu_JS_NewFloat64_nb d) \<notin> set enum_tags"
    by (rule above_range_not_enum[OF new_float64_tag])
  then show ?thesis
    using new_float64_is_float[of d]
    by (simp add: tag_classes_nb_of_tag tag_list_defs)
qed

lemma classes_float_st:
  "tag_classes_st (uu_JS_NewFloat64_st d) = [True, False, False, False, False, False, False]"
  by (simp add: tag_classes_st_of_tag get_tag_new_float64_st JS_TAG_IS_FLOAT64_st_def tag_defs)

lemma classes_short_big_int_st:
  "tag_classes_st (uu_JS_NewShortBigInt_st y) = [False, True, False, False, False, False, False]"
proof -
  have "JS_VALUE_GET_TAG_st (uu_JS_NewShortBigInt_st y) = JS_TAG_SHORT_BIG_INT"
    by (simp add: JS_VALUE_GET_TAG_st_def uu_JS_NewShortBigInt_st_def ucast_scast_id)
  then show ?thesis
    by (simp add: tag_classes_st_of_tag JS_TAG_IS_FLOAT64_st_def tag_defs)
qed

lemma at_most_one_class_nb: "length (filter id (tag_classes_nb v)) \<le> 1"
  unfolding tag_classes_nb_of_tag Let_def JS_TAG_IS_FLOAT64_nb_def tag_defs
  by (auto simp add: not_17_le_1)

lemma at_most_one_class_st: "length (filter id (tag_classes_st v)) \<le> 1"
  unfolding tag_classes_st_of_tag Let_def JS_TAG_IS_FLOAT64_st_def tag_defs
  by auto

lemma classes_int64_nb:
  "tag_classes_nb (JS_NewInt64_nb cvt v) = [True, False, False, False, False, False, False]"
  by (simp add: JS_NewInt64_nb_def JS_NewInt32_nb_def JS_NewFloat64_nb_def classes_mkval_nb
      classes_float_nb)

lemma classes_uint32_nb:
  "tag_classes_nb (JS_NewUint32_nb cvt w) = [True, False, False, False, False, False, False]"
  by (simp add: JS_NewUint32_nb_def JS_NewInt32_nb_def JS_NewFloat64_nb_def classes_mkval_nb
      classes_float_nb)

lemma classes_int64_st:
  "tag_classes_st (JS_NewInt64_st cvt v) = [True, False, False, False, False, False, False]"
  by (simp add: JS_NewInt64_st_def JS_NewInt32_st_def JS_NewFloat64_st_def classes_mkval_st
      classes_float_st)

lemma classes_uint32_st:
  "tag_classes_st (JS_NewUint32_st cvt w) = [True, False, False, False, False, False, False]"
  by (simp add: JS_NewUint32_st_def JS_NewInt32_st_def JS_NewFloat64_st_def classes_mkval_st
      classes_float_st)

subsection \<open>The NaN test on encoded doubles\<close>

lemma ucast_ucast_id: "(ucast (ucast (a :: 32 word) :: 64 word) :: 32 word) = a"
  by (rule bit_word_eqI) (auto simp add: bit_simps)

lemma ucast_up_eq_iff: "(ucast (a :: 32 word) :: 64 word) = ucast b \<longleftrightarrow> a = (b :: 32 word)"
proof
  assume "(ucast a :: 64 word) = ucast b"
  then have "(ucast (ucast a :: 64 word) :: 32 word) = ucast (ucast b :: 64 word)" by simp
  then show "a = b" by (simp only: ucast_ucast_id)
qed simp

lemma is_nan_nb_iff:
  "JS_VALUE_IS_NAN_nb v \<longleftrightarrow> JS_VALUE_GET_TAG_nb v = JS_VALUE_GET_TAG_nb JS_NAN_nb"
proof -
  have "drop_bit 32 JS_NAN_nb = (ucast (JS_VALUE_GET_TAG_nb JS_NAN_nb) :: 64 word)"
    by (simp add: nan_val JS_VALUE_GET_TAG_nb_def)
  then show ?thesis
    unfolding JS_VALUE_IS_NAN_nb_def Let_def by (simp only: ucast_up_eq_iff)
qed

lemma hi_rng10:
  assumes "unat (h :: 32 word) mod 2^31 \<le> 0x7ff00000"
  shows "h - 0x7ff8000a \<noteq> - 10"
proof -
  have "(- 10 :: 32 word) = 0xfffffff6" by simp
  with hi_rng(3)[OF assms] show ?thesis by (simp only:) simp
qed

lemma is_nan_new_float64_nb: "JS_VALUE_IS_NAN_nb (uu_JS_NewFloat64_nb d) \<longleftrightarrow> is_nan_bits d"
proof (cases "is_nan_bits d")
  case True
  then have "uu_JS_NewFloat64_nb d = JS_NAN_nb"
    by (simp add: uu_JS_NewFloat64_nb_def is_nan_bits_def)
  with True show ?thesis by (simp add: is_nan_nb_iff)
next
  case False
  then have e: "uu_JS_NewFloat64_nb d = d - push_bit 32 (scast JS_FLOAT64_TAG_ADDEND)"
    by (simp add: uu_JS_NewFloat64_nb_def is_nan_bits_def)
  have "JS_VALUE_GET_TAG_nb d - 0x7ff8000a \<noteq> - 10"
    by (rule hi_rng10[OF not_nan_hi[OF False]])
  then have "\<not> JS_VALUE_IS_NAN_nb (uu_JS_NewFloat64_nb d)"
    unfolding is_nan_nb_iff e get_tag_sub_addend nan_tag .
  with False show ?thesis by simp
qed

lemma is_nan_new_float64_st: "JS_VALUE_IS_NAN_st (uu_JS_NewFloat64_st d) = Some (is_nan_bits d)"
  by (simp add: JS_VALUE_IS_NAN_st_def uu_JS_NewFloat64_st_def is_nan_bits_def)

lemma uncanonical_nan_missed:
  "is_nan_bits 0x7ff0000000000001 \<and>
   \<not> JS_VALUE_IS_NAN_nb (0x7ff0000000000001 - push_bit 32 (scast JS_FLOAT64_TAG_ADDEND))"
proof -
  have "JS_VALUE_GET_TAG_nb 0x7ff0000000000001 = 0x7ff00000"
    by (simp add: JS_VALUE_GET_TAG_nb_def)
  then have "\<not> JS_VALUE_IS_NAN_nb
      (0x7ff0000000000001 - push_bit 32 (scast JS_FLOAT64_TAG_ADDEND))"
    unfolding is_nan_nb_iff get_tag_sub_addend nan_tag by simp
  then show ?thesis by (simp add: is_nan_bits_def)
qed

subsection \<open>Payload accessors in the three layouts\<close>

lemma get_bool_sbi_mkval_nb:
  "JS_VALUE_GET_BOOL_nb (JS_MKVAL_nb t p) = p"
  "JS_VALUE_GET_SHORT_BIG_INT_nb (JS_MKVAL_nb t p) = p"
  using get_int_mkval_nb[of t p]
  by (simp_all add: JS_VALUE_GET_BOOL_nb_def JS_VALUE_GET_SHORT_BIG_INT_nb_def
      JS_VALUE_GET_INT_nb_def)

lemma get_bool_sbi_mkval_st:
  "JS_VALUE_GET_BOOL_st (JS_MKVAL_st t p) = Some p"
  "JS_VALUE_GET_SHORT_BIG_INT_st (JS_MKVAL_st t p) = Some p"
  by (simp_all add: JS_VALUE_GET_BOOL_st_def JS_VALUE_GET_SHORT_BIG_INT_st_def JS_MKVAL_st_def)

lemma get_bool_sbi_mkval_ck:
  assumes "drop_bit 4 (t :: 32 word) = 0"
  shows "JS_VALUE_GET_BOOL_ck (JS_MKVAL_ck t p) = p"
    and "JS_VALUE_GET_SHORT_BIG_INT_ck (JS_MKVAL_ck t p) = p"
  using get_int_mkval_ck[OF assms, of p]
  by (simp_all add: JS_VALUE_GET_BOOL_ck_def JS_VALUE_GET_SHORT_BIG_INT_ck_def
      JS_VALUE_GET_INT_ck_def)

lemma norm_tag_mkval_ck: "JS_VALUE_GET_NORM_TAG_ck (JS_MKVAL_ck t p) = t AND 15"
proof -
  have f: "(15 :: 32 word) = mask 4" by (simp add: mask_eq_exp_minus_1)
  show ?thesis
    unfolding JS_VALUE_GET_NORM_TAG_ck_def JS_MKVAL_ck_def fifteen f
    by (rule bit_word_eqI) (auto simp add: bit_simps)
qed

lemma ref_count_tag_lost_ck:
  "t \<in> set ref_count_tags \<Longrightarrow> JS_VALUE_GET_NORM_TAG_ck (JS_MKVAL_ck t p) \<noteq> t"
  unfolding norm_tag_mkval_ck tag_list_defs tag_defs by auto

lemma signed_drop_mkval_ck:
  assumes "drop_bit 4 (t :: 32 word) = 0"
  shows "signed_drop_bit 4 (JS_MKVAL_ck t p) = scast p"
  unfolding JS_MKVAL_ck_def
  apply (rule bit_word_eqI)
  apply (auto simp add: bit_simps bit_signed_drop_bit_iff dest!: small_tag_bits[OF assms])
  done

lemma get_float64_mkval_ck:
  "JS_VALUE_GET_FLOAT64_ck cvt (JS_MKVAL_ck JS_TAG_FLOAT64 p) = cvt (scast p)"
proof -
  have "drop_bit 4 JS_TAG_FLOAT64 = 0" by (simp add: JS_TAG_FLOAT64_def)
  then show ?thesis by (simp add: JS_VALUE_GET_FLOAT64_ck_def signed_drop_mkval_ck)
qed

lemma mkval_nb_add: "JS_MKVAL_nb t p = push_bit 32 (scast t) + ucast p"
  unfolding JS_MKVAL_nb_def
  by (rule disjunctive_add_eq_or[symmetric]) (rule bit_eqI, auto simp add: bit_simps dest: bit_imp_le_length)

lemma get_float64_mkval_nb:
  "JS_VALUE_GET_FLOAT64_nb (JS_MKVAL_nb JS_TAG_FLOAT64 p) = JS_MKVAL_nb 0x7ff80012 p"
  by (simp add: JS_VALUE_GET_FLOAT64_nb_def mkval_nb_add addend_val JS_TAG_FLOAT64_def)

lemma nan_of_hi:
  assumes "unat (JS_VALUE_GET_TAG_nb d) mod 2^31 > 0x7ff00000"
  shows "is_nan_bits d"
proof -
  from assms have "(unat d mod 2^63) div 2^32 > 0x7ff00000"
    unfolding unat_hi nat_hi_mod by simp
  then have "unat d mod 2^63 > 0x7ff0000000000000" by simp
  then show ?thesis by (simp add: is_nan_bits_def word_less_nat_alt unat_and63)
qed

lemma float_of_mkval_nb_is_nan:
  "ieee_is_nan (JS_VALUE_GET_FLOAT64_nb (JS_MKVAL_nb JS_TAG_FLOAT64 p))"
  unfolding get_float64_mkval_nb is_nan_bits_ieee[symmetric]
  by (rule nan_of_hi) (simp add: get_tag_mkval_nb)

lemma float_of_mkval_nb_not_canonical:
  "JS_VALUE_GET_FLOAT64_nb (JS_MKVAL_nb JS_TAG_FLOAT64 p) \<noteq> 0x7ff8000000000000"
proof
  assume "JS_VALUE_GET_FLOAT64_nb (JS_MKVAL_nb JS_TAG_FLOAT64 p) = 0x7ff8000000000000"
  then have "JS_VALUE_GET_TAG_nb (JS_MKVAL_nb 0x7ff80012 p) = JS_VALUE_GET_TAG_nb 0x7ff8000000000000"
    by (simp add: get_float64_mkval_nb)
  moreover have "JS_VALUE_GET_TAG_nb 0x7ff8000000000000 = 0x7ff80000"
    by (simp add: JS_VALUE_GET_TAG_nb_def)
  ultimately show False by (simp only: get_tag_mkval_nb) simp
qed

subsection \<open>Reading back a constructed float\<close>

lemma get_float64_new_nb_ieee:
  "JS_VALUE_GET_FLOAT64_nb (uu_JS_NewFloat64_nb d)
     = (if ieee_is_nan d then 0x7ff8000000000000 else d)"
  by (simp add: get_float64_new_nb is_nan_bits_ieee)

lemma get_float64_int64_nb:
  assumes "\<not> (INT32_MIN \<le> sint v \<and> sint v \<le> INT32_MAX)" "\<not> ieee_is_nan (cvt v)"
  shows "JS_VALUE_GET_FLOAT64_nb (JS_NewInt64_nb cvt v) = cvt v"
  using assms(2) by (simp add: new_int64_nb_out(1)[OF assms(1)] get_float64_new_nb_ieee)

lemma get_float64_int64_st:
  assumes "\<not> (INT32_MIN \<le> sint v \<and> sint v \<le> INT32_MAX)"
  shows "JS_VALUE_GET_FLOAT64_st (JS_NewInt64_st cvt v) = Some (cvt v)"
  by (simp add: new_int64_st_out(1)[OF assms] get_float64_new_st)

lemma get_float64_uint32_nb:
  assumes "\<not> uint w \<le> INT32_MAX" "\<not> ieee_is_nan (cvt w)"
  shows "JS_VALUE_GET_FLOAT64_nb (JS_NewUint32_nb cvt w) = cvt w"
  using assms(2) by (simp add: new_uint32_nb_out(1)[OF assms(1)] get_float64_new_nb_ieee)

lemma get_float64_uint32_st:
  assumes "\<not> uint w \<le> INT32_MAX"
  shows "JS_VALUE_GET_FLOAT64_st (JS_NewUint32_st cvt w) = Some (cvt w)"
  by (simp add: new_uint32_st_out(1)[OF assms] get_float64_new_st)

section \<open>The claims\<close>

text \<open>
  Claim C1. For every tag of the enumeration and any payload,
  \<^verbatim>\<open>JS_VALUE_HAS_REF_COUNT\<close> holds of \<^verbatim>\<open>JS_MKVAL(tag, payload)\<close> and of
  \<^verbatim>\<open>JS_MKPTR(tag, pointer)\<close> exactly when the tag is one of the six
  reference-counted tags, in the NaN-boxed and in the struct layout; the single
  unsigned comparison of the tag with \<^verbatim>\<open>JS_TAG_FIRST\<close> separates the two
  classes; and, read as signed integers, every reference-counted tag is below
  every other tag of the enumeration.
\<close>

theorem C1_ref_count_threshold:
  "t \<in> set enum_tags \<Longrightarrow>
     (JS_VALUE_HAS_REF_COUNT_nb (JS_MKVAL_nb t p) \<longleftrightarrow> t \<in> set ref_count_tags) \<and>
     (JS_VALUE_HAS_REF_COUNT_st (JS_MKVAL_st t p) \<longleftrightarrow> t \<in> set ref_count_tags) \<and>
     (JS_VALUE_HAS_REF_COUNT_nb (JS_MKPTR_nb t p) \<longleftrightarrow> t \<in> set ref_count_tags) \<and>
     (JS_VALUE_HAS_REF_COUNT_st (JS_MKPTR_st t q) \<longleftrightarrow> t \<in> set ref_count_tags) \<and>
     (JS_TAG_FIRST \<le> t \<longleftrightarrow> t \<in> set ref_count_tags) \<and>
     (\<forall>r \<in> set ref_count_tags. \<forall>n \<in> set enum_tags - set ref_count_tags. sint r < sint n)"
  unfolding JS_VALUE_HAS_REF_COUNT_nb_def JS_VALUE_HAS_REF_COUNT_st_def
    get_tag_mkval_nb get_tag_mkval_st get_tag_mkptr_nb get_tag_mkptr_st
  unfolding tag_list_defs tag_defs
  by (auto simp add: neg9_le_1)

theorem C1_ref_count_threshold_witness:
  "JS_TAG_OBJECT \<in> set enum_tags \<and> JS_TAG_INT \<in> set enum_tags \<and>
   JS_VALUE_HAS_REF_COUNT_nb (JS_MKVAL_nb JS_TAG_OBJECT 5) \<and>
   JS_VALUE_HAS_REF_COUNT_st (JS_MKVAL_st JS_TAG_OBJECT 5) \<and>
   JS_VALUE_HAS_REF_COUNT_nb (JS_MKPTR_nb JS_TAG_OBJECT 5) \<and>
   JS_VALUE_HAS_REF_COUNT_st (JS_MKPTR_st JS_TAG_OBJECT 0x7f0000001000) \<and>
   \<not> JS_VALUE_HAS_REF_COUNT_nb (JS_MKVAL_nb JS_TAG_INT 5) \<and>
   \<not> JS_VALUE_HAS_REF_COUNT_st (JS_MKVAL_st JS_TAG_INT 5) \<and>
   sint JS_TAG_OBJECT < sint JS_TAG_INT"
proof -
  have o: "JS_TAG_OBJECT \<in> set enum_tags" and i: "JS_TAG_INT \<in> set enum_tags"
    and o': "JS_TAG_OBJECT \<in> set ref_count_tags" and i': "JS_TAG_INT \<notin> set ref_count_tags"
    by (simp_all add: tag_list_defs tag_defs)
  from i i' have i'': "JS_TAG_INT \<in> set enum_tags - set ref_count_tags" by simp
  show ?thesis
    using C1_ref_count_threshold [OF o, of 5 "0x7f0000001000"]
      C1_ref_count_threshold [OF i, of 5 "0x7f0000001000"] o i o' i' i''
    by blast
qed

text \<open>
  Claim C2. Under the NaN-boxed layout \<^verbatim>\<open>__JS_NewFloat64\<close> maps every bit
  pattern that passes its NaN test
  (\<^verbatim>\<open>(bits & 0x7fffffffffffffff) > 0x7ff0000000000000\<close>) to the one value
  \<^verbatim>\<open>JS_NAN\<close>, so any two NaN bit patterns are encoded to the same value.
\<close>

theorem C2_nan_canonical:
  "is_nan_bits d1 \<Longrightarrow> is_nan_bits d2 \<Longrightarrow>
     uu_JS_NewFloat64_nb d1 = JS_NAN_nb \<and> uu_JS_NewFloat64_nb d2 = JS_NAN_nb \<and>
     uu_JS_NewFloat64_nb d1 = uu_JS_NewFloat64_nb d2"
  by (simp add: uu_JS_NewFloat64_nb_def is_nan_bits_def)

theorem C2_nan_canonical_witness:
  "is_nan_bits 0x7ff0000000000001 \<and> is_nan_bits 0xffffffffffffffff \<and>
   uu_JS_NewFloat64_nb 0x7ff0000000000001 = JS_NAN_nb \<and>
   uu_JS_NewFloat64_nb 0xffffffffffffffff = JS_NAN_nb \<and>
   uu_JS_NewFloat64_nb 0x7ff0000000000001 = uu_JS_NewFloat64_nb 0xffffffffffffffff"
proof -
  have a: "is_nan_bits 0x7ff0000000000001" and b: "is_nan_bits 0xffffffffffffffff"
    by (simp_all add: is_nan_bits_def)
  show ?thesis using C2_nan_canonical [OF a b] a b by simp
qed

text \<open>
  Claim C3. Under the NaN-boxed layout, the encoding of any double decodes as a
  float: \<^verbatim>\<open>JS_TAG_IS_FLOAT64\<close> holds of its tag,
  \<^verbatim>\<open>JS_VALUE_GET_NORM_TAG\<close> returns \<^verbatim>\<open>JS_TAG_FLOAT64\<close>,
  \<^verbatim>\<open>JS_VALUE_HAS_REF_COUNT\<close> is false, and the raw tag word is none of the
  enumerated tags.
\<close>

theorem C3_double_decodes_as_float:
  "JS_TAG_IS_FLOAT64_nb (JS_VALUE_GET_TAG_nb (uu_JS_NewFloat64_nb d)) \<and>
   JS_VALUE_GET_NORM_TAG_nb (uu_JS_NewFloat64_nb d) = JS_TAG_FLOAT64 \<and>
   \<not> JS_VALUE_HAS_REF_COUNT_nb (uu_JS_NewFloat64_nb d) \<and>
   JS_VALUE_GET_TAG_nb (uu_JS_NewFloat64_nb d) \<notin> set enum_tags"
  using new_float64_is_float[of d] new_float64_no_ref_count[of d]
    above_range_not_enum[OF new_float64_tag[of d]]
  by (simp add: JS_VALUE_GET_NORM_TAG_nb_def)

text \<open>
  Claim C4, as amended. For every non-float tag of the enumeration and every
  32-bit payload, \<^verbatim>\<open>JS_VALUE_GET_TAG\<close> and each of the accessors
  \<^verbatim>\<open>JS_VALUE_GET_INT\<close>, \<^verbatim>\<open>JS_VALUE_GET_BOOL\<close> and
  \<^verbatim>\<open>JS_VALUE_GET_SHORT_BIG_INT\<close> give back the tag and the payload of
  \<^verbatim>\<open>JS_MKVAL(tag, payload)\<close>, in the NaN-boxed and in the struct layout. In both
  layouts \<^verbatim>\<open>JS_VALUE_GET_FLOAT64(__JS_NewFloat64(d))\<close> is \<open>d\<close> for every double
  that is not a NaN. For a NaN it is the one pattern \<open>0x7ff8000000000000\<close> under the
  NaN-boxed layout; under the struct layout it is a NaN, but not a canonical one:
  the quiet NaNs \<open>0x7ff8000000000001\<close> and \<open>0x7ff8000000000000\<close> come back
  different.
\<close>

theorem C4_round_trip:
  "(t \<in> set non_float_tags \<longrightarrow>
      JS_VALUE_GET_TAG_nb (JS_MKVAL_nb t p) = t \<and>
      JS_VALUE_GET_INT_nb (JS_MKVAL_nb t p) = p \<and>
      JS_VALUE_GET_BOOL_nb (JS_MKVAL_nb t p) = p \<and>
      JS_VALUE_GET_SHORT_BIG_INT_nb (JS_MKVAL_nb t p) = p \<and>
      JS_VALUE_GET_TAG_st (JS_MKVAL_st t p) = t \<and>
      JS_VALUE_GET_INT_st (JS_MKVAL_st t p) = Some p \<and>
      JS_VALUE_GET_BOOL_st (JS_MKVAL_st t p) = Some p \<and>
      JS_VALUE_GET_SHORT_BIG_INT_st (JS_MKVAL_st t p) = Some p) \<and>
   (\<not> ieee_is_nan d \<longrightarrow>
      JS_VALUE_GET_FLOAT64_nb (uu_JS_NewFloat64_nb d) = d \<and>
      JS_VALUE_GET_FLOAT64_st (uu_JS_NewFloat64_st d) = Some d) \<and>
   (ieee_is_nan d \<longrightarrow>
      JS_VALUE_GET_FLOAT64_nb (uu_JS_NewFloat64_nb d) = 0x7ff8000000000000 \<and>
      (\<exists>d'. JS_VALUE_GET_FLOAT64_st (uu_JS_NewFloat64_st d) = Some d' \<and> ieee_is_nan d')) \<and>
   JS_VALUE_GET_FLOAT64_st (uu_JS_NewFloat64_st 0x7ff8000000000001)
     \<noteq> JS_VALUE_GET_FLOAT64_st (uu_JS_NewFloat64_st 0x7ff8000000000000)"
  by (simp add: get_tag_mkval_nb get_int_mkval_nb get_bool_sbi_mkval_nb get_tag_mkval_st
      get_int_mkval_st get_bool_sbi_mkval_st get_float64_new_nb_ieee get_float64_new_st)

theorem C4_round_trip_witness:
  "JS_TAG_BOOL \<in> set non_float_tags \<and>
   JS_VALUE_GET_TAG_nb (JS_MKVAL_nb JS_TAG_BOOL 1) = JS_TAG_BOOL \<and>
   JS_VALUE_GET_BOOL_nb (JS_MKVAL_nb JS_TAG_BOOL 1) = 1 \<and>
   JS_VALUE_GET_TAG_st (JS_MKVAL_st JS_TAG_BOOL 1) = JS_TAG_BOOL \<and>
   JS_VALUE_GET_BOOL_st (JS_MKVAL_st JS_TAG_BOOL 1) = Some 1 \<and>
   \<not> ieee_is_nan 0x3ff0000000000000 \<and>
   JS_VALUE_GET_FLOAT64_nb (uu_JS_NewFloat64_nb 0x3ff0000000000000) = 0x3ff0000000000000 \<and>
   JS_VALUE_GET_FLOAT64_st (uu_JS_NewFloat64_st 0x3ff0000000000000) = Some 0x3ff0000000000000 \<and>
   ieee_is_nan 0xfff8000000000001 \<and>
   JS_VALUE_GET_FLOAT64_nb (uu_JS_NewFloat64_nb 0xfff8000000000001) = 0x7ff8000000000000"
proof -
  have a: "JS_TAG_BOOL \<in> set non_float_tags" by (simp add: tag_list_defs tag_defs)
  have b: "\<not> ieee_is_nan 0x3ff0000000000000" and c: "ieee_is_nan 0xfff8000000000001"
    by (simp_all add: is_nan_bits_def flip: is_nan_bits_ieee)
  show ?thesis
    using C4_round_trip [of JS_TAG_BOOL 1 "0x3ff0000000000000"]
      C4_round_trip [of JS_TAG_BOOL 1 "0xfff8000000000001"]
      a b c by blast
qed

text \<open>
  Claim C4 as first stated asks the struct layout, too, to decode every NaN to
  one canonical representation. It does not: two quiet NaNs with different
  payloads come back different.
\<close>

theorem C4_struct_nan_not_canonical:
  "ieee_is_nan 0x7ff8000000000001 \<and> ieee_is_nan 0x7ff8000000000000 \<and>
   JS_VALUE_GET_FLOAT64_st (uu_JS_NewFloat64_st 0x7ff8000000000001)
     \<noteq> JS_VALUE_GET_FLOAT64_st (uu_JS_NewFloat64_st 0x7ff8000000000000)"
  by (simp add: get_float64_new_st is_nan_bits_def flip: is_nan_bits_ieee)

text \<open>
  Claim C5, as amended. For every tag of the enumeration and every 32-bit payload,
  \<^verbatim>\<open>JS_VALUE_GET_NORM_TAG\<close> and the accessors of a 32-bit payload,
  \<^verbatim>\<open>JS_VALUE_GET_INT\<close>, \<^verbatim>\<open>JS_VALUE_GET_BOOL\<close> and
  \<^verbatim>\<open>JS_VALUE_GET_SHORT_BIG_INT\<close>, applied to \<^verbatim>\<open>JS_MKVAL(tag, payload)\<close> give
  back the tag and the payload under the struct and the NaN-boxed layout. The
  checking layout (with a 64-bit \<^verbatim>\<open>intptr_t\<close>) does so on the inline tags
  \<^verbatim>\<open>JS_TAG_INT\<close> to \<^verbatim>\<open>JS_TAG_FLOAT64\<close>; on each of the six
  reference-counted tags it decodes the tag to \<^verbatim>\<open>tag & 15\<close>, a different tag,
  whatever the payload. \<^verbatim>\<open>JS_VALUE_GET_FLOAT64\<close> is outside the agreement:
  applied to \<^verbatim>\<open>JS_MKVAL(JS_TAG_FLOAT64, payload)\<close> it is, for every payload, a
  NaN other than \<open>0x7ff8000000000000\<close> under the NaN-boxed layout, and
  \<^verbatim>\<open>(double)payload\<close> under the checking layout.
\<close>

theorem C5_layouts_agree:
  "(t \<in> set enum_tags \<longrightarrow>
      JS_VALUE_GET_NORM_TAG_nb (JS_MKVAL_nb t p) = t \<and>
      JS_VALUE_GET_NORM_TAG_st (JS_MKVAL_st t p) = t \<and>
      JS_VALUE_GET_INT_nb (JS_MKVAL_nb t p) = p \<and>
      JS_VALUE_GET_BOOL_nb (JS_MKVAL_nb t p) = p \<and>
      JS_VALUE_GET_SHORT_BIG_INT_nb (JS_MKVAL_nb t p) = p \<and>
      JS_VALUE_GET_INT_st (JS_MKVAL_st t p) = Some p \<and>
      JS_VALUE_GET_BOOL_st (JS_MKVAL_st t p) = Some p \<and>
      JS_VALUE_GET_SHORT_BIG_INT_st (JS_MKVAL_st t p) = Some p) \<and>
   (t \<in> set inline_tags \<longrightarrow>
      JS_VALUE_GET_NORM_TAG_ck (JS_MKVAL_ck t p) = t \<and>
      JS_VALUE_GET_INT_ck (JS_MKVAL_ck t p) = p \<and>
      JS_VALUE_GET_BOOL_ck (JS_MKVAL_ck t p) = p \<and>
      JS_VALUE_GET_SHORT_BIG_INT_ck (JS_MKVAL_ck t p) = p) \<and>
   (t \<in> set ref_count_tags \<longrightarrow>
      JS_VALUE_GET_NORM_TAG_ck (JS_MKVAL_ck t p) = t AND 15 \<and>
      JS_VALUE_GET_NORM_TAG_ck (JS_MKVAL_ck t p) \<noteq> t) \<and>
   ieee_is_nan (JS_VALUE_GET_FLOAT64_nb (JS_MKVAL_nb JS_TAG_FLOAT64 p)) \<and>
   JS_VALUE_GET_FLOAT64_nb (JS_MKVAL_nb JS_TAG_FLOAT64 p) \<noteq> 0x7ff8000000000000 \<and>
   JS_VALUE_GET_FLOAT64_ck cvt (JS_MKVAL_ck JS_TAG_FLOAT64 p) = cvt (scast p)"
proof -
  have a: "t \<in> set enum_tags \<longrightarrow>
      JS_VALUE_GET_NORM_TAG_nb (JS_MKVAL_nb t p) = t \<and>
      JS_VALUE_GET_NORM_TAG_st (JS_MKVAL_st t p) = t \<and>
      JS_VALUE_GET_INT_nb (JS_MKVAL_nb t p) = p \<and>
      JS_VALUE_GET_BOOL_nb (JS_MKVAL_nb t p) = p \<and>
      JS_VALUE_GET_SHORT_BIG_INT_nb (JS_MKVAL_nb t p) = p \<and>
      JS_VALUE_GET_INT_st (JS_MKVAL_st t p) = Some p \<and>
      JS_VALUE_GET_BOOL_st (JS_MKVAL_st t p) = Some p \<and>
      JS_VALUE_GET_SHORT_BIG_INT_st (JS_MKVAL_st t p) = Some p"
    by (simp add: get_norm_tag_mkval_nb JS_VALUE_GET_NORM_TAG_st_def get_tag_mkval_st
        get_int_mkval_nb get_int_mkval_st get_bool_sbi_mkval_nb get_bool_sbi_mkval_st)
  have b: "t \<in> set inline_tags \<longrightarrow>
      JS_VALUE_GET_NORM_TAG_ck (JS_MKVAL_ck t p) = t \<and>
      JS_VALUE_GET_INT_ck (JS_MKVAL_ck t p) = p \<and>
      JS_VALUE_GET_BOOL_ck (JS_MKVAL_ck t p) = p \<and>
      JS_VALUE_GET_SHORT_BIG_INT_ck (JS_MKVAL_ck t p) = p"
    using get_tag_mkval_ck[OF inline_tags_small, of t p]
      get_int_mkval_ck[OF inline_tags_small, of t p]
      get_bool_sbi_mkval_ck[OF inline_tags_small, of t p]
    by (simp add: JS_VALUE_GET_NORM_TAG_ck_def JS_VALUE_GET_TAG_ck_def)
  have c: "t \<in> set ref_count_tags \<longrightarrow>
      JS_VALUE_GET_NORM_TAG_ck (JS_MKVAL_ck t p) = t AND 15 \<and>
      JS_VALUE_GET_NORM_TAG_ck (JS_MKVAL_ck t p) \<noteq> t"
    using ref_count_tag_lost_ck[of t p] by (simp add: norm_tag_mkval_ck)
  from a b c float_of_mkval_nb_is_nan[of p] float_of_mkval_nb_not_canonical[of p]
    get_float64_mkval_ck[of cvt p]
  show ?thesis by (intro conjI)
qed

theorem C5_layouts_agree_witness:
  "JS_TAG_BOOL \<in> set enum_tags \<and> JS_TAG_BOOL \<in> set inline_tags \<and>
   JS_VALUE_GET_NORM_TAG_nb (JS_MKVAL_nb JS_TAG_BOOL 1) = JS_TAG_BOOL \<and>
   JS_VALUE_GET_NORM_TAG_st (JS_MKVAL_st JS_TAG_BOOL 1) = JS_TAG_BOOL \<and>
   JS_VALUE_GET_NORM_TAG_ck (JS_MKVAL_ck JS_TAG_BOOL 1) = JS_TAG_BOOL \<and>
   JS_VALUE_GET_BOOL_nb (JS_MKVAL_nb JS_TAG_BOOL 1) = 1 \<and>
   JS_VALUE_GET_BOOL_st (JS_MKVAL_st JS_TAG_BOOL 1) = Some 1 \<and>
   JS_VALUE_GET_BOOL_ck (JS_MKVAL_ck JS_TAG_BOOL 1) = 1 \<and>
   JS_TAG_STRING \<in> set enum_tags \<and> JS_TAG_STRING \<in> set ref_count_tags \<and>
   JS_VALUE_GET_NORM_TAG_nb (JS_MKVAL_nb JS_TAG_STRING 1) = JS_TAG_STRING \<and>
   JS_VALUE_GET_NORM_TAG_st (JS_MKVAL_st JS_TAG_STRING 1) = JS_TAG_STRING \<and>
   JS_VALUE_GET_NORM_TAG_ck (JS_MKVAL_ck JS_TAG_STRING 1) = JS_TAG_STRING AND 15 \<and>
   JS_VALUE_GET_NORM_TAG_ck (JS_MKVAL_ck JS_TAG_STRING 1) \<noteq> JS_TAG_STRING"
proof -
  have a: "JS_TAG_BOOL \<in> set enum_tags" and b: "JS_TAG_BOOL \<in> set inline_tags"
    and c: "JS_TAG_STRING \<in> set enum_tags" and d: "JS_TAG_STRING \<in> set ref_count_tags"
    by (simp_all add: tag_list_defs tag_defs)
  show ?thesis
    using C5_layouts_agree [of JS_TAG_BOOL 1] C5_layouts_agree [of JS_TAG_STRING 1] a b c d by blast
qed

text \<open>
  Claim C5 as first stated includes the reference-counted tags under the checking
  layout, and the float accessor. There the four tag bits cannot hold a negative
  tag: \<^verbatim>\<open>JS_MKVAL(JS_TAG_OBJECT, 0)\<close> decodes to tag 15, not \<open>-1\<close>. And
  \<^verbatim>\<open>JS_VALUE_GET_FLOAT64(JS_MKVAL(JS_TAG_FLOAT64, 0))\<close> is the NaN
  \<open>0x7ff8001200000000\<close> under the NaN-boxed layout, while the checking layout
  returns \<^verbatim>\<open>(double)0\<close>, which is \<open>+0.0\<close>, the pattern 0 (the conversion is
  taken here to be the identity on patterns, which is right at 0).
\<close>

theorem C5_checked_layout_differs:
  "JS_TAG_OBJECT \<in> set enum_tags \<and>
   JS_VALUE_GET_NORM_TAG_ck (JS_MKVAL_ck JS_TAG_OBJECT 0)
     \<noteq> JS_VALUE_GET_NORM_TAG_st (JS_MKVAL_st JS_TAG_OBJECT 0) \<and>
   JS_VALUE_GET_NORM_TAG_ck (JS_MKVAL_ck JS_TAG_OBJECT 0)
     \<noteq> JS_VALUE_GET_NORM_TAG_nb (JS_MKVAL_nb JS_TAG_OBJECT 0) \<and>
   JS_VALUE_GET_FLOAT64_nb (JS_MKVAL_nb JS_TAG_FLOAT64 0) = 0x7ff8001200000000 \<and>
   ieee_is_nan 0x7ff8001200000000 \<and>
   JS_VALUE_GET_FLOAT64_ck id (JS_MKVAL_ck JS_TAG_FLOAT64 0) = 0 \<and>
   \<not> ieee_is_nan 0"
proof -
  have o: "JS_TAG_OBJECT \<in> set enum_tags" by (simp add: tag_list_defs)
  have ck: "JS_VALUE_GET_NORM_TAG_ck (JS_MKVAL_ck JS_TAG_OBJECT 0) = 15"
    by (simp add: JS_VALUE_GET_NORM_TAG_ck_def JS_MKVAL_ck_def JS_TAG_OBJECT_def)
  have st: "JS_VALUE_GET_NORM_TAG_st (JS_MKVAL_st JS_TAG_OBJECT 0) = - 1"
    by (simp add: JS_VALUE_GET_NORM_TAG_st_def get_tag_mkval_st JS_TAG_OBJECT_def)
  have nb: "JS_VALUE_GET_NORM_TAG_nb (JS_MKVAL_nb JS_TAG_OBJECT 0) = - 1"
    by (simp add: get_norm_tag_mkval_nb[OF o]) (simp add: JS_TAG_OBJECT_def)
  have f: "JS_VALUE_GET_FLOAT64_nb (JS_MKVAL_nb JS_TAG_FLOAT64 0) = 0x7ff8001200000000"
    by (simp add: JS_VALUE_GET_FLOAT64_nb_def JS_MKVAL_nb_def addend_val JS_TAG_FLOAT64_def)
  have n: "ieee_is_nan 0x7ff8001200000000" "\<not> ieee_is_nan 0"
    by (simp_all add: is_nan_bits_def flip: is_nan_bits_ieee)
  have c: "JS_VALUE_GET_FLOAT64_ck id (JS_MKVAL_ck JS_TAG_FLOAT64 0) = 0"
    by (simp add: get_float64_mkval_ck)
  show ?thesis unfolding ck st nb f c using o n by simp
qed

text \<open>
  Claim C6, as amended. Under the NaN-boxed layout \<^verbatim>\<open>JS_TAG_IS_FLOAT64(tag)\<close>
  holds exactly for the float64 tag and for every tag whose unsigned distance from
  \<^verbatim>\<open>JS_TAG_FIRST\<close> exceeds \<^verbatim>\<open>JS_TAG_FLOAT64 - JS_TAG_FIRST\<close>, which is 17; it
  is false on every enumerated tag from \<^verbatim>\<open>JS_TAG_BIG_INT\<close> to
  \<^verbatim>\<open>JS_TAG_SHORT_BIG_INT\<close> and true on \<^verbatim>\<open>JS_TAG_FLOAT64\<close>.
\<close>

theorem C6_is_float_threshold:
  "(JS_TAG_IS_FLOAT64_nb tag \<longleftrightarrow>
      tag = JS_TAG_FLOAT64 \<or>
      unat (tag - JS_TAG_FIRST) > unat (JS_TAG_FLOAT64 - JS_TAG_FIRST)) \<and>
   unat (JS_TAG_FLOAT64 - JS_TAG_FIRST) = 17 \<and>
   (\<forall>t \<in> set non_float_tags. \<not> JS_TAG_IS_FLOAT64_nb t) \<and>
   JS_TAG_IS_FLOAT64_nb JS_TAG_FLOAT64"
proof -
  have "unat (JS_TAG_FLOAT64 - JS_TAG_FIRST) = 17" by (simp add: tag_defs)
  moreover have "JS_TAG_IS_FLOAT64_nb JS_TAG_FLOAT64"
    by (simp add: JS_TAG_IS_FLOAT64_nb_def)
  ultimately show ?thesis
    using is_float_nb_iff[of tag] non_float_not_float_nb
    by (simp add: word_less_nat_alt)
qed

theorem C6_is_float_threshold_witness:
  "JS_TAG_IS_FLOAT64_nb 100 \<and> unat (100 - JS_TAG_FIRST) > unat (JS_TAG_FLOAT64 - JS_TAG_FIRST) \<and>
   JS_TAG_EXCEPTION \<in> set non_float_tags \<and> \<not> JS_TAG_IS_FLOAT64_nb JS_TAG_EXCEPTION \<and>
   JS_TAG_IS_FLOAT64_nb JS_TAG_FLOAT64"
proof -
  have a: "JS_TAG_EXCEPTION \<in> set non_float_tags" by (simp add: tag_list_defs tag_defs)
  have b: "unat (100 - JS_TAG_FIRST) > unat (JS_TAG_FLOAT64 - JS_TAG_FIRST)"
    by (simp add: tag_defs)
  show ?thesis using C6_is_float_threshold [of 100] a b by blast
qed

text \<open>
  Claim C6 as first stated puts the threshold at the count of non-float tags.
  The enumeration has 14 of them (the values \<open>-6\<close>, \<open>-5\<close> and \<open>-4\<close> are unused), so
  \<^verbatim>\<open>JS_TAG_SHORT_BIG_INT\<close>, at distance 16, is beyond that count and yet is not
  a float tag.
\<close>

theorem C6_count_of_tags_is_not_the_threshold:
  "length non_float_tags = 14 \<and>
   unat (JS_TAG_SHORT_BIG_INT - JS_TAG_FIRST) > length non_float_tags \<and>
   JS_TAG_SHORT_BIG_INT \<noteq> JS_TAG_FLOAT64 \<and>
   \<not> JS_TAG_IS_FLOAT64_nb JS_TAG_SHORT_BIG_INT"
  by (simp add: JS_TAG_IS_FLOAT64_nb_def tag_list_defs tag_defs)

text \<open>
  Claim C7. \<^verbatim>\<open>JS_NewInt64\<close> returns the inline integer
  \<^verbatim>\<open>JS_MKVAL(JS_TAG_INT, v)\<close>, whose payload reads back as the same number, when
  \<^verbatim>\<open>INT32_MIN <= v <= INT32_MAX\<close>; otherwise it returns
  \<^verbatim>\<open>__JS_NewFloat64((double)v)\<close>, whose tag is a float tag and not
  \<^verbatim>\<open>JS_TAG_INT\<close> and whose value reads back through
  \<^verbatim>\<open>JS_VALUE_GET_FLOAT64\<close> as \<^verbatim>\<open>(double)v\<close>. \<^verbatim>\<open>JS_NewUint32\<close> does the
  same with the one bound \<^verbatim>\<open>v <= INT32_MAX\<close>. Both hold in the NaN-boxed and in
  the struct layout, for any conversion \<open>cvt\<close> from integers to doubles; the read
  back is stated where \<open>cvt v\<close> is not a NaN, which the conversion of an integer
  never is.
\<close>

theorem C7_new_int64_by_range:
  "(INT32_MIN \<le> sint v \<and> sint v \<le> INT32_MAX \<longrightarrow>
      JS_NewInt64_nb cvt v = JS_MKVAL_nb JS_TAG_INT (ucast v) \<and>
      JS_VALUE_GET_TAG_nb (JS_NewInt64_nb cvt v) = JS_TAG_INT \<and>
      sint (JS_VALUE_GET_INT_nb (JS_NewInt64_nb cvt v)) = sint v \<and>
      JS_NewInt64_st cvt v = JS_MKVAL_st JS_TAG_INT (ucast v) \<and>
      JS_VALUE_GET_TAG_st (JS_NewInt64_st cvt v) = JS_TAG_INT \<and>
      map_option sint (JS_VALUE_GET_INT_st (JS_NewInt64_st cvt v)) = Some (sint v)) \<and>
   (\<not> (INT32_MIN \<le> sint v \<and> sint v \<le> INT32_MAX) \<longrightarrow>
      JS_NewInt64_nb cvt v = uu_JS_NewFloat64_nb (cvt v) \<and>
      JS_TAG_IS_FLOAT64_nb (JS_VALUE_GET_TAG_nb (JS_NewInt64_nb cvt v)) \<and>
      JS_VALUE_GET_TAG_nb (JS_NewInt64_nb cvt v) \<noteq> JS_TAG_INT \<and>
      JS_NewInt64_st cvt v = uu_JS_NewFloat64_st (cvt v) \<and>
      JS_TAG_IS_FLOAT64_st (JS_VALUE_GET_TAG_st (JS_NewInt64_st cvt v)) \<and>
      JS_VALUE_GET_TAG_st (JS_NewInt64_st cvt v) \<noteq> JS_TAG_INT \<and>
      (\<not> ieee_is_nan (cvt v) \<longrightarrow>
         JS_VALUE_GET_FLOAT64_nb (JS_NewInt64_nb cvt v) = cvt v \<and>
         JS_VALUE_GET_FLOAT64_st (JS_NewInt64_st cvt v) = Some (cvt v))) \<and>
   (uint w \<le> INT32_MAX \<longrightarrow>
      JS_NewUint32_nb cvt' w = JS_MKVAL_nb JS_TAG_INT w \<and>
      JS_VALUE_GET_TAG_nb (JS_NewUint32_nb cvt' w) = JS_TAG_INT \<and>
      sint (JS_VALUE_GET_INT_nb (JS_NewUint32_nb cvt' w)) = uint w \<and>
      JS_NewUint32_st cvt' w = JS_MKVAL_st JS_TAG_INT w \<and>
      JS_VALUE_GET_TAG_st (JS_NewUint32_st cvt' w) = JS_TAG_INT \<and>
      map_option sint (JS_VALUE_GET_INT_st (JS_NewUint32_st cvt' w)) = Some (uint w)) \<and>
   (\<not> uint w \<le> INT32_MAX \<longrightarrow>
      JS_NewUint32_nb cvt' w = uu_JS_NewFloat64_nb (cvt' w) \<and>
      JS_TAG_IS_FLOAT64_nb (JS_VALUE_GET_TAG_nb (JS_NewUint32_nb cvt' w)) \<and>
      JS_VALUE_GET_TAG_nb (JS_NewUint32_nb cvt' w) \<noteq> JS_TAG_INT \<and>
      JS_NewUint32_st cvt' w = uu_JS_NewFloat64_st (cvt' w) \<and>
      JS_TAG_IS_FLOAT64_st (JS_VALUE_GET_TAG_st (JS_NewUint32_st cvt' w)) \<and>
      JS_VALUE_GET_TAG_st (JS_NewUint32_st cvt' w) \<noteq> JS_TAG_INT \<and>
      (\<not> ieee_is_nan (cvt' w) \<longrightarrow>
         JS_VALUE_GET_FLOAT64_nb (JS_NewUint32_nb cvt' w) = cvt' w \<and>
         JS_VALUE_GET_FLOAT64_st (JS_NewUint32_st cvt' w) = Some (cvt' w)))"
proof -
  have a: "INT32_MIN \<le> sint v \<and> sint v \<le> INT32_MAX \<longrightarrow>
      JS_NewInt64_nb cvt v = JS_MKVAL_nb JS_TAG_INT (ucast v) \<and>
      JS_VALUE_GET_TAG_nb (JS_NewInt64_nb cvt v) = JS_TAG_INT \<and>
      sint (JS_VALUE_GET_INT_nb (JS_NewInt64_nb cvt v)) = sint v \<and>
      JS_NewInt64_st cvt v = JS_MKVAL_st JS_TAG_INT (ucast v) \<and>
      JS_VALUE_GET_TAG_st (JS_NewInt64_st cvt v) = JS_TAG_INT \<and>
      map_option sint (JS_VALUE_GET_INT_st (JS_NewInt64_st cvt v)) = Some (sint v)"
    by (intro impI conjI new_int64_nb_in new_int64_st_in; simp)
  have b: "\<not> (INT32_MIN \<le> sint v \<and> sint v \<le> INT32_MAX) \<longrightarrow>
      JS_NewInt64_nb cvt v = uu_JS_NewFloat64_nb (cvt v) \<and>
      JS_TAG_IS_FLOAT64_nb (JS_VALUE_GET_TAG_nb (JS_NewInt64_nb cvt v)) \<and>
      JS_VALUE_GET_TAG_nb (JS_NewInt64_nb cvt v) \<noteq> JS_TAG_INT \<and>
      JS_NewInt64_st cvt v = uu_JS_NewFloat64_st (cvt v) \<and>
      JS_TAG_IS_FLOAT64_st (JS_VALUE_GET_TAG_st (JS_NewInt64_st cvt v)) \<and>
      JS_VALUE_GET_TAG_st (JS_NewInt64_st cvt v) \<noteq> JS_TAG_INT \<and>
      (\<not> ieee_is_nan (cvt v) \<longrightarrow>
         JS_VALUE_GET_FLOAT64_nb (JS_NewInt64_nb cvt v) = cvt v \<and>
         JS_VALUE_GET_FLOAT64_st (JS_NewInt64_st cvt v) = Some (cvt v))"
    by (intro impI conjI new_int64_nb_out new_int64_st_out get_float64_int64_nb
        get_float64_int64_st; simp)
  have c: "uint w \<le> INT32_MAX \<longrightarrow>
      JS_NewUint32_nb cvt' w = JS_MKVAL_nb JS_TAG_INT w \<and>
      JS_VALUE_GET_TAG_nb (JS_NewUint32_nb cvt' w) = JS_TAG_INT \<and>
      sint (JS_VALUE_GET_INT_nb (JS_NewUint32_nb cvt' w)) = uint w \<and>
      JS_NewUint32_st cvt' w = JS_MKVAL_st JS_TAG_INT w \<and>
      JS_VALUE_GET_TAG_st (JS_NewUint32_st cvt' w) = JS_TAG_INT \<and>
      map_option sint (JS_VALUE_GET_INT_st (JS_NewUint32_st cvt' w)) = Some (uint w)"
    by (intro impI conjI new_uint32_nb_in new_uint32_st_in; simp)
  have d: "\<not> uint w \<le> INT32_MAX \<longrightarrow>
      JS_NewUint32_nb cvt' w = uu_JS_NewFloat64_nb (cvt' w) \<and>
      JS_TAG_IS_FLOAT64_nb (JS_VALUE_GET_TAG_nb (JS_NewUint32_nb cvt' w)) \<and>
      JS_VALUE_GET_TAG_nb (JS_NewUint32_nb cvt' w) \<noteq> JS_TAG_INT \<and>
      JS_NewUint32_st cvt' w = uu_JS_NewFloat64_st (cvt' w) \<and>
      JS_TAG_IS_FLOAT64_st (JS_VALUE_GET_TAG_st (JS_NewUint32_st cvt' w)) \<and>
      JS_VALUE_GET_TAG_st (JS_NewUint32_st cvt' w) \<noteq> JS_TAG_INT \<and>
      (\<not> ieee_is_nan (cvt' w) \<longrightarrow>
         JS_VALUE_GET_FLOAT64_nb (JS_NewUint32_nb cvt' w) = cvt' w \<and>
         JS_VALUE_GET_FLOAT64_st (JS_NewUint32_st cvt' w) = Some (cvt' w))"
    by (intro impI conjI new_uint32_nb_out new_uint32_st_out get_float64_uint32_nb
        get_float64_uint32_st; simp)
  from a b c d show ?thesis by (intro conjI)
qed

theorem C7_new_int64_by_range_witness:
  "INT32_MIN \<le> sint (- 5 :: 64 word) \<and> sint (- 5 :: 64 word) \<le> INT32_MAX \<and>
   JS_NewInt64_nb (\<lambda>_. 0x4270000000000000) (- 5) = JS_MKVAL_nb JS_TAG_INT (ucast (- 5 :: 64 word)) \<and>
   sint (JS_VALUE_GET_INT_nb (JS_NewInt64_nb (\<lambda>_. 0x4270000000000000) (- 5))) = sint (- 5 :: 64 word) \<and>
   JS_NewInt64_st (\<lambda>_. 0x4270000000000000) (- 5) = JS_MKVAL_st JS_TAG_INT (ucast (- 5 :: 64 word)) \<and>
   \<not> (INT32_MIN \<le> sint (0x10000000000 :: 64 word) \<and> sint (0x10000000000 :: 64 word) \<le> INT32_MAX) \<and>
   \<not> ieee_is_nan 0x4270000000000000 \<and>
   JS_NewInt64_nb (\<lambda>_. 0x4270000000000000) 0x10000000000 = uu_JS_NewFloat64_nb 0x4270000000000000 \<and>
   JS_NewInt64_st (\<lambda>_. 0x4270000000000000) 0x10000000000 = uu_JS_NewFloat64_st 0x4270000000000000 \<and>
   JS_VALUE_GET_FLOAT64_nb (JS_NewInt64_nb (\<lambda>_. 0x4270000000000000) 0x10000000000)
     = 0x4270000000000000 \<and>
   JS_VALUE_GET_FLOAT64_st (JS_NewInt64_st (\<lambda>_. 0x4270000000000000) 0x10000000000)
     = Some 0x4270000000000000 \<and>
   uint (7 :: 32 word) \<le> INT32_MAX \<and>
   JS_NewUint32_nb (\<lambda>_. 0x41efffffffe00000) 7 = JS_MKVAL_nb JS_TAG_INT 7 \<and>
   JS_NewUint32_st (\<lambda>_. 0x41efffffffe00000) 7 = JS_MKVAL_st JS_TAG_INT 7 \<and>
   \<not> uint (0xffffffff :: 32 word) \<le> INT32_MAX \<and>
   \<not> ieee_is_nan 0x41efffffffe00000 \<and>
   JS_NewUint32_nb (\<lambda>_. 0x41efffffffe00000) 0xffffffff = uu_JS_NewFloat64_nb 0x41efffffffe00000 \<and>
   JS_NewUint32_st (\<lambda>_. 0x41efffffffe00000) 0xffffffff = uu_JS_NewFloat64_st 0x41efffffffe00000 \<and>
   JS_VALUE_GET_FLOAT64_nb (JS_NewUint32_nb (\<lambda>_. 0x41efffffffe00000) 0xffffffff)
     = 0x41efffffffe00000 \<and>
   JS_VALUE_GET_FLOAT64_st (JS_NewUint32_st (\<lambda>_. 0x41efffffffe00000) 0xffffffff)
     = Some 0x41efffffffe00000"
proof -
  have a: "INT32_MIN \<le> sint (- 5 :: 64 word) \<and> sint (- 5 :: 64 word) \<le> INT32_MAX"
    by (simp add: INT32_MIN_def INT32_MAX_def)
  have b: "\<not> (INT32_MIN \<le> sint (0x10000000000 :: 64 word) \<and>
              sint (0x10000000000 :: 64 word) \<le> INT32_MAX)"
    by (simp add: INT32_MIN_def INT32_MAX_def)
  have c: "uint (7 :: 32 word) \<le> INT32_MAX" by (simp add: INT32_MAX_def)
  have d: "\<not> uint (0xffffffff :: 32 word) \<le> INT32_MAX" by (simp add: INT32_MAX_def)
  have e: "\<not> ieee_is_nan 0x4270000000000000" "\<not> ieee_is_nan 0x41efffffffe00000"
    by (simp_all add: is_nan_bits_def flip: is_nan_bits_ieee)
  show ?thesis
    using C7_new_int64_by_range [of "- 5" "\<lambda>_. 0x4270000000000000" 7 "\<lambda>_. 0x41efffffffe00000"]
      C7_new_int64_by_range [of "0x10000000000" "\<lambda>_. 0x4270000000000000" "0xffffffff" "\<lambda>_. 0x41efffffffe00000"]
      a b c d e
    by blast
qed

text \<open>
  Claim C8. Of the seven predicates \<^verbatim>\<open>JS_IsNumber\<close>, \<^verbatim>\<open>JS_IsBigInt\<close>,
  \<^verbatim>\<open>JS_IsBool\<close>, \<^verbatim>\<open>JS_IsNull\<close>, \<^verbatim>\<open>JS_IsUndefined\<close>,
  \<^verbatim>\<open>JS_IsUninitialized\<close> and \<^verbatim>\<open>JS_IsException\<close>, exactly the expected one
  holds of each constructed value, and no other: the number predicate of the
  results of \<^verbatim>\<open>JS_NewInt32\<close>, \<^verbatim>\<open>JS_NewFloat64\<close>, \<^verbatim>\<open>JS_NewInt64\<close> and
  \<^verbatim>\<open>JS_NewUint32\<close>, the big-integer predicate of \<^verbatim>\<open>__JS_NewShortBigInt\<close>,
  and so on for \<^verbatim>\<open>JS_NewBool\<close>, \<^verbatim>\<open>JS_NULL\<close>, \<^verbatim>\<open>JS_UNDEFINED\<close>,
  \<^verbatim>\<open>JS_UNINITIALIZED\<close> and \<^verbatim>\<open>JS_EXCEPTION\<close>, in both runnable layouts.
  Moreover no value at all, constructed or not, satisfies two of the seven.
\<close>

theorem C8_tag_classes:
  "tag_classes_nb (JS_NewInt32_nb x) = [True, False, False, False, False, False, False] \<and>
   tag_classes_nb (JS_NewFloat64_nb d) = [True, False, False, False, False, False, False] \<and>
   tag_classes_nb (JS_NewInt64_nb cvt v) = [True, False, False, False, False, False, False] \<and>
   tag_classes_nb (JS_NewUint32_nb cvt' w) = [True, False, False, False, False, False, False] \<and>
   tag_classes_nb (uu_JS_NewShortBigInt_nb x) = [False, True, False, False, False, False, False] \<and>
   tag_classes_nb (JS_NewBool_nb b) = [False, False, True, False, False, False, False] \<and>
   tag_classes_nb JS_NULL_nb = [False, False, False, True, False, False, False] \<and>
   tag_classes_nb JS_UNDEFINED_nb = [False, False, False, False, True, False, False] \<and>
   tag_classes_nb JS_UNINITIALIZED_nb = [False, False, False, False, False, True, False] \<and>
   tag_classes_nb JS_EXCEPTION_nb = [False, False, False, False, False, False, True] \<and>
   tag_classes_st (JS_NewInt32_st x) = [True, False, False, False, False, False, False] \<and>
   tag_classes_st (JS_NewFloat64_st d) = [True, False, False, False, False, False, False] \<and>
   tag_classes_st (JS_NewInt64_st cvt v) = [True, False, False, False, False, False, False] \<and>
   tag_classes_st (JS_NewUint32_st cvt' w) = [True, False, False, False, False, False, False] \<and>
   tag_classes_st (uu_JS_NewShortBigInt_st y) = [False, True, False, False, False, False, False] \<and>
   tag_classes_st (JS_NewBool_st b) = [False, False, True, False, False, False, False] \<and>
   tag_classes_st JS_NULL_st = [False, False, False, True, False, False, False] \<and>
   tag_classes_st JS_UNDEFINED_st = [False, False, False, False, True, False, False] \<and>
   tag_classes_st JS_UNINITIALIZED_st = [False, False, False, False, False, True, False] \<and>
   tag_classes_st JS_EXCEPTION_st = [False, False, False, False, False, False, True] \<and>
   length (filter id (tag_classes_nb v1)) \<le> 1 \<and>
   length (filter id (tag_classes_st v2)) \<le> 1"
  unfolding JS_NewInt32_nb_def JS_NewFloat64_nb_def uu_JS_NewShortBigInt_nb_def JS_NewBool_nb_def
    JS_NULL_nb_def JS_UNDEFINED_nb_def JS_UNINITIALIZED_nb_def JS_EXCEPTION_nb_def
    JS_NewInt32_st_def JS_NewFloat64_st_def JS_NewBool_st_def
    JS_NULL_st_def JS_UNDEFINED_st_def JS_UNINITIALIZED_st_def JS_EXCEPTION_st_def
  by (intro conjI classes_mkval_nb classes_mkval_st classes_float_nb classes_float_st
      classes_int64_nb classes_uint32_nb classes_int64_st classes_uint32_st
      classes_short_big_int_st at_most_one_class_nb at_most_one_class_st)

text \<open>
  Claim C9. In both runnable layouts \<^verbatim>\<open>JS_VALUE_IS_NAN(JS_NewFloat64(ctx, d))\<close>
  is true exactly when \<open>d\<close> is a NaN. Under the NaN-boxed layout the test only
  compares the tag word of the value with the high word of \<^verbatim>\<open>JS_NAN\<close>; it is
  right because construction canonicalises: the signalling NaN
  \<open>0x7ff0000000000001\<close>, encoded without canonicalisation, would not pass it.
\<close>

theorem C9_is_nan_of_new_float64:
  "(JS_VALUE_IS_NAN_nb (JS_NewFloat64_nb d) \<longleftrightarrow> ieee_is_nan d) \<and>
   JS_VALUE_IS_NAN_st (JS_NewFloat64_st d) = Some (ieee_is_nan d) \<and>
   (JS_VALUE_IS_NAN_nb v \<longleftrightarrow> JS_VALUE_GET_TAG_nb v = JS_VALUE_GET_TAG_nb JS_NAN_nb) \<and>
   ieee_is_nan 0x7ff0000000000001 \<and>
   \<not> JS_VALUE_IS_NAN_nb (0x7ff0000000000001 - push_bit 32 (scast JS_FLOAT64_TAG_ADDEND))"
  using is_nan_new_float64_nb[of d] is_nan_new_float64_st[of d] is_nan_nb_iff[of v]
    uncanonical_nan_missed
  by (simp only: JS_NewFloat64_nb_def JS_NewFloat64_st_def is_nan_bits_ieee simp_thms)

text \<open>
  Claim C10. \<^verbatim>\<open>JS_VALUE_IS_BOTH_INT(v1, v2)\<close> is true exactly when both tags are
  \<^verbatim>\<open>JS_TAG_INT\<close>, and \<^verbatim>\<open>JS_VALUE_IS_BOTH_FLOAT(v1, v2)\<close> exactly when
  \<^verbatim>\<open>JS_TAG_IS_FLOAT64\<close> holds of both tags, for all values of each layout.
\<close>

theorem C10_pairwise_classifiers:
  "(JS_VALUE_IS_BOTH_INT_nb v1 v2 \<longleftrightarrow>
      JS_VALUE_GET_TAG_nb v1 = JS_TAG_INT \<and> JS_VALUE_GET_TAG_nb v2 = JS_TAG_INT) \<and>
   (JS_VALUE_IS_BOTH_FLOAT_nb v1 v2 \<longleftrightarrow>
      JS_TAG_IS_FLOAT64_nb (JS_VALUE_GET_TAG_nb v1) \<and>
      JS_TAG_IS_FLOAT64_nb (JS_VALUE_GET_TAG_nb v2)) \<and>
   (JS_VALUE_IS_BOTH_INT_st s1 s2 \<longleftrightarrow>
      JS_VALUE_GET_TAG_st s1 = JS_TAG_INT \<and> JS_VALUE_GET_TAG_st s2 = JS_TAG_INT) \<and>
   (JS_VALUE_IS_BOTH_FLOAT_st s1 s2 \<longleftrightarrow>
      JS_TAG_IS_FLOAT64_st (JS_VALUE_GET_TAG_st s1) \<and>
      JS_TAG_IS_FLOAT64_st (JS_VALUE_GET_TAG_st s2)) \<and>
   (JS_VALUE_IS_BOTH_INT_ck c1 c2 \<longleftrightarrow>
      JS_VALUE_GET_TAG_ck c1 = JS_TAG_INT \<and> JS_VALUE_GET_TAG_ck c2 = JS_TAG_INT) \<and>
   (JS_VALUE_IS_BOTH_FLOAT_ck c1 c2 \<longleftrightarrow>
      JS_TAG_IS_FLOAT64_ck (JS_VALUE_GET_TAG_ck c1) \<and>
      JS_TAG_IS_FLOAT64_ck (JS_VALUE_GET_TAG_ck c2))"
  by (simp add: JS_VALUE_IS_BOTH_INT_nb_def JS_VALUE_IS_BOTH_FLOAT_nb_def
      JS_VALUE_IS_BOTH_INT_st_def JS_VALUE_IS_BOTH_FLOAT_st_def
      JS_VALUE_IS_BOTH_INT_ck_def JS_VALUE_IS_BOTH_FLOAT_ck_def
      JS_TAG_INT_def or_eq_0_iff)

end
